theory Spec2Isabelle
  imports Complex_Main
begin

section \<open>Tensors and errors\<close>

text \<open>
  The ensemble of Models/BNN.py works on torch tensors of rank 0 to 3. A tensor is
  modelled by its nested rows, one constructor per rank; its entries are real numbers
  (the rounding of float32 arithmetic is not modelled). An exception of the source is
  a value of \<open>error\<close>; a \<open>ValueError\<close> carries a tag for the message it is raised with.
\<close>

datatype error =
    AssertionError
  | ValueError string
  | RuntimeError
  | IndexError
  | ZeroDivisionError
  | AttributeError

datatype tensor =
    T0 real
  | T1 "real list"
  | T2 "real list list"
  | T3 "real list list list"

fun ndim :: "tensor \<Rightarrow> nat" where
  "ndim (T0 _) = 0"
| "ndim (T1 _) = 1"
| "ndim (T2 _) = 2"
| "ndim (T3 _) = 3"

text \<open>\<open>flatten\<close> is the row-major sequence of the entries, the order torch stores them in.\<close>

fun flatten :: "tensor \<Rightarrow> real list" where
  "flatten (T0 a) = [a]"
| "flatten (T1 r) = r"
| "flatten (T2 m) = concat m"
| "flatten (T3 c) = concat (concat c)"

text \<open>
  \<open>t.view(m, n, -1)\<close> and \<open>t.view(b, -1)\<close> of a contiguous tensor: the entries keep their
  order, the last dimension is what is left; torch raises when the entries cannot be
  divided that way (also when the fixed dimensions multiply to zero).
\<close>

definition view3 :: "nat \<Rightarrow> nat \<Rightarrow> real list \<Rightarrow> error + real list list list" where
  "view3 m n flat =
     (if m * n = 0 \<or> length flat mod (m * n) \<noteq> 0 then Inl RuntimeError
      else let w = length flat div (m * n)
           in Inr (map (\<lambda>i. map (\<lambda>r. take w (drop ((i * n + r) * w) flat)) [0..<n]) [0..<m]))"

definition view2 :: "nat \<Rightarrow> real list \<Rightarrow> error + real list list" where
  "view2 b flat =
     (if b = 0 \<or> length flat mod b \<noteq> 0 then Inl RuntimeError
      else let w = length flat div b
           in Inr (map (\<lambda>k. take w (drop (k * w) flat)) [0..<b]))"

text \<open>\<open>x[:, idx, ...]\<close> on a rank-3 tensor: the rows \<open>idx\<close> of every slice, in that order.\<close>

definition shape1 :: "real list list list \<Rightarrow> nat" where
  "shape1 xs = (case xs of [] \<Rightarrow> 0 | sl # _ \<Rightarrow> length sl)"

definition index_dim1 :: "real list list list \<Rightarrow> nat list \<Rightarrow> error + real list list list" where
  "index_dim1 xs idx =
     (if \<exists>i \<in> set idx. shape1 xs \<le> i then Inl IndexError
      else Inr (map (\<lambda>sl. map (\<lambda>i. sl ! i) idx) xs))"

text \<open>
  \<open>dst[idx] = src\<close> on rank-2 tensors: row \<open>k\<close> of \<open>src\<close> is written to row \<open>idx[k]\<close> of
  \<open>dst\<close>, one index after the other; a single source row is broadcast.
\<close>

definition index_put :: "real list list \<Rightarrow> nat list \<Rightarrow> real list list \<Rightarrow> error + real list list" where
  "index_put dst idx src =
     (if \<exists>i \<in> set idx. length dst \<le> i then Inl IndexError
      else if length idx = length src
        then Inr (fold (\<lambda>(i, r) acc. acc[i := r]) (zip idx src) dst)
      else if length src = 1
        then Inr (fold (\<lambda>i acc. acc[i := hd src]) idx dst)
      else Inl RuntimeError)"

text \<open>
  Broadcasting of two dimensions, as torch does it: equal sizes pair up, a dimension of
  size one is repeated, any other pair of sizes is an error.
\<close>

definition bzip :: "'a list \<Rightarrow> 'b list \<Rightarrow> error + ('a \<times> 'b) list" where
  "bzip xs ys =
     (if length xs = length ys then Inr (zip xs ys)
      else if length xs = 1 then Inr (map (\<lambda>y. (hd xs, y)) ys)
      else if length ys = 1 then Inr (map (\<lambda>x. (x, hd ys)) xs)
      else Inl RuntimeError)"

fun sequence :: "(error + 'a) list \<Rightarrow> error + 'a list" where
  "sequence [] = Inr []"
| "sequence (Inl e # _) = Inl e"
| "sequence (Inr v # rs) = (case sequence rs of Inl e \<Rightarrow> Inl e | Inr vs \<Rightarrow> Inr (v # vs))"

definition bmap :: "('a \<Rightarrow> 'b \<Rightarrow> error + 'c) \<Rightarrow> 'a list \<Rightarrow> 'b list \<Rightarrow> error + 'c list" where
  "bmap f xs ys =
     (case bzip xs ys of Inl e \<Rightarrow> Inl e | Inr ps \<Rightarrow> sequence (map (\<lambda>(x, y). f x y) ps))"

definition to3 :: "tensor \<Rightarrow> real list list list" where
  "to3 t = (case t of T0 a \<Rightarrow> [[[a]]] | T1 r \<Rightarrow> [[r]] | T2 m \<Rightarrow> [m] | T3 c \<Rightarrow> c)"

definition from3 :: "nat \<Rightarrow> real list list list \<Rightarrow> tensor" where
  "from3 k c =
     (if k = 3 then T3 c else if k = 2 then T2 (hd c) else if k = 1 then T1 (hd (hd c))
      else T0 (hd (hd (hd c))))"

text \<open>\<open>F.mse_loss(input, target, reduction="none")\<close>: the squared difference of the
  two tensors broadcast against each other, entry by entry.\<close>

definition F_mse_loss :: "tensor \<Rightarrow> tensor \<Rightarrow> error + tensor" where
  "F_mse_loss inp target =
     (case bmap (bmap (bmap (\<lambda>a b. Inr ((a - b)\<^sup>2)))) (to3 inp) (to3 target) of
        Inl e \<Rightarrow> Inl e
      | Inr c \<Rightarrow> Inr (from3 (max (ndim inp) (ndim target)) c))"

text \<open>\<open>t.sum((1, 2))\<close>, \<open>t.sum()\<close>, \<open>t.mean()\<close> and \<open>t.mean(dim=0)\<close>.\<close>

definition sum12 :: "tensor \<Rightarrow> error + tensor" where
  "sum12 t = (case t of T3 c \<Rightarrow> Inr (T1 (map (\<lambda>sl. sum_list (map sum_list sl)) c))
              | _ \<Rightarrow> Inl IndexError)"

definition sum_all :: "tensor \<Rightarrow> tensor" where
  "sum_all t = T0 (sum_list (flatten t))"

definition mean_all :: "tensor \<Rightarrow> tensor" where
  "mean_all t = T0 (sum_list (flatten t) / real (length (flatten t)))"

text \<open>The mean over the first axis of a rank-3 tensor with at least one slice. An empty
  first axis (torch fills the result with NaN) and the lower ranks are not reached
  by the ensemble and are answered with an error here.\<close>

definition mean_dim0 :: "tensor \<Rightarrow> error + tensor" where
  "mean_dim0 t =
     (case t of
        T3 (sl # sls) \<Rightarrow>
          Inr (T2 (map (\<lambda>b. map (\<lambda>j. (\<Sum>s \<leftarrow> sl # sls. s ! b ! j) / real (length (sl # sls)))
                              [0..<length (sl ! b)])
                       [0..<length sl]))
      | _ \<Rightarrow> Inl RuntimeError)"

section \<open>The ensemble linear layer\<close>

text \<open>
  Modelled from the spec: \<open>EnsembleLinearBayesian\<close> of Models/utils.py is not among the
  sources. By the specification (4.1, 2) it stacks one Bayesian affine unit per member,
  \<open>forward\<close> applies the unit of a member to the slice of that member (all members, or
  the elite ones while \<open>use_only_elite\<close> is on) and draws one weight sample per call
  unless the unit is frozen, \<open>set_elite\<close> records the elite indices, and
  \<open>toggle_use_only_elite\<close> flips the flag. The weights are a function of the draw
  (\<open>None\<close>: the posterior means), the member and the position; \<open>kl_cur\<close> is the
  KL term of the last draw, \<open>kl_of d\<close> the one draw \<open>d\<close> gives.
\<close>

record layer =
  l_members :: nat
  in_features :: nat
  out_features :: nat
  weight :: "nat option \<Rightarrow> nat \<Rightarrow> nat \<Rightarrow> nat \<Rightarrow> real"
  bias :: "nat option \<Rightarrow> nat \<Rightarrow> nat \<Rightarrow> real"
  kl_of :: "nat \<Rightarrow> real"
  kl_cur :: real
  l_freeze :: bool
  l_elite :: "nat list"
  use_only_elite :: bool

definition layer_set_elite :: "layer \<Rightarrow> nat list \<Rightarrow> layer" where
  "layer_set_elite l es = l\<lparr>l_elite := es\<rparr>"

definition toggle_use_only_elite :: "layer \<Rightarrow> layer" where
  "toggle_use_only_elite l = l\<lparr>use_only_elite := \<not> use_only_elite l\<rparr>"

definition members_used :: "layer \<Rightarrow> nat list" where
  "members_used l = (if use_only_elite l then l_elite l else [0..<l_members l])"

definition draw_of :: "layer \<Rightarrow> nat \<Rightarrow> nat option" where
  "draw_of l d = (if l_freeze l then None else Some d)"

definition unit_row :: "layer \<Rightarrow> nat option \<Rightarrow> nat \<Rightarrow> real list \<Rightarrow> real list" where
  "unit_row l dr m x =
     map (\<lambda>j. (\<Sum>i \<leftarrow> [0..<in_features l]. x ! i * weight l dr m i j) + bias l dr m j)
         [0..<out_features l]"

definition slices_of :: "tensor \<Rightarrow> real list list list option" where
  "slices_of x = (case x of T3 c \<Rightarrow> Some c | T2 m \<Rightarrow> Some [m] | _ \<Rightarrow> None)"

text \<open>
  Modelled from the spec: the forward pass of the layer. A member index outside the
  ensemble, a batch of rank below 2, a row that is not \<open>in_features\<close> wide and a
  leading dimension that does not broadcast against the members are the errors torch's
  indexing and matrix product raise.
\<close>

definition layer_forward :: "layer \<Rightarrow> nat \<Rightarrow> tensor \<Rightarrow> (error + tensor) \<times> layer" where
  "layer_forward l d x =
     (let l' = (if l_freeze l then l else l\<lparr>kl_cur := kl_of l d\<rparr>);
          ms = members_used l
      in if \<exists>m \<in> set ms. l_members l \<le> m then (Inl IndexError, l')
         else case slices_of x of
                None \<Rightarrow> (Inl RuntimeError, l')
              | Some xs \<Rightarrow>
                  if \<exists>sl \<in> set xs. \<exists>r \<in> set sl. length r \<noteq> in_features l
                  then (Inl RuntimeError, l')
                  else (case bzip ms xs of
                          Inl e \<Rightarrow> (Inl e, l')
                        | Inr ps \<Rightarrow>
                            (Inr (T3 (map (\<lambda>(m, sl). map (unit_row l (draw_of l d) m) sl) ps)),
                             l')))"

definition apply_activation :: "(real \<Rightarrow> real) \<Rightarrow> tensor \<Rightarrow> tensor" where
  "apply_activation act t =
     (case t of T0 a \<Rightarrow> T0 (act a) | T1 r \<Rightarrow> T1 (map act r)
      | T2 m \<Rightarrow> T2 (map (map act) m) | T3 c \<Rightarrow> T3 (map (map (map act)) c))"

section \<open>The ensemble\<close>

text \<open>
  The state of a \<open>BNN\<close> object. \<open>num_members\<close> is the ensemble size (\<open>len(self)\<close>),
  \<open>activation\<close> the function every hidden block applies entry by entry after its
  linear layer, and \<open>passes\<close> counts the forward passes made so far: a unit that is not
  frozen draws weight sample number \<open>passes\<close> in the next pass, so that two passes never
  share a draw.
\<close>

record bnn =
  in_size :: nat
  out_size :: nat
  num_members :: nat
  propagation_method :: "string option"
  freeze :: bool
  elite_models :: "nat list option"
  hidden_layers :: "layer list"
  output_layer :: layer
  activation :: "real \<Rightarrow> real"
  passes :: nat

type_synonym 'a result = "(error + 'a) \<times> bnn"

type_synonym params =
  "(nat option \<Rightarrow> nat \<Rightarrow> nat \<Rightarrow> nat \<Rightarrow> real) \<times> (nat option \<Rightarrow> nat \<Rightarrow> nat \<Rightarrow> real) \<times> (nat \<Rightarrow> real)"

definition create_linear_layer :: "nat \<Rightarrow> nat \<Rightarrow> nat \<Rightarrow> params \<Rightarrow> layer" where
  "create_linear_layer ensemble_size l_in l_out p =
     \<lparr>l_members = ensemble_size, in_features = l_in, out_features = l_out,
      weight = fst p, bias = fst (snd p), kl_of = snd (snd p), kl_cur = 0,
      l_freeze = False, l_elite = [], use_only_elite = False\<rparr>"

definition freeze_model :: "bnn \<Rightarrow> bnn" where
  "freeze_model s =
     s\<lparr>freeze := True,
       hidden_layers := map (\<lambda>l. l\<lparr>l_freeze := True\<rparr>) (hidden_layers s),
       output_layer := (output_layer s)\<lparr>l_freeze := True\<rparr>\<rparr>"

definition unfreeze_model :: "bnn \<Rightarrow> bnn" where
  "unfreeze_model s =
     s\<lparr>freeze := False,
       hidden_layers := map (\<lambda>l. l\<lparr>l_freeze := False\<rparr>) (hidden_layers s),
       output_layer := (output_layer s)\<lparr>l_freeze := False\<rparr>\<rparr>"

text \<open>The constructor; \<open>init k\<close> gives the parameters layer \<open>k\<close> is created with.\<close>

definition BNN_init ::
  "nat \<Rightarrow> nat \<Rightarrow> nat \<Rightarrow> nat \<Rightarrow> nat \<Rightarrow> bool \<Rightarrow> string option \<Rightarrow> (real \<Rightarrow> real) \<Rightarrow> (nat \<Rightarrow> params) \<Rightarrow> bnn"
where
  "BNN_init i_size o_size num_layers ensemble_size hid_size frz method act init =
     (let s = \<lparr>in_size = i_size, out_size = o_size, num_members = ensemble_size,
               propagation_method = method, freeze = frz, elite_models = None,
               hidden_layers =
                 create_linear_layer ensemble_size i_size hid_size (init 0) #
                 map (\<lambda>k. create_linear_layer ensemble_size hid_size hid_size (init (Suc k)))
                     [0..<num_layers - 1],
               output_layer = create_linear_layer ensemble_size hid_size o_size (init num_layers),
               activation = act, passes = 0\<rparr>
      in if frz then freeze_model s else s)"

definition maybe_toggle_layers_use_only_elite :: "bnn \<Rightarrow> bool \<Rightarrow> bnn" where
  "maybe_toggle_layers_use_only_elite s only_elite =
     (case elite_models s of
        None \<Rightarrow> s
      | Some es \<Rightarrow>
          if 1 < num_members s \<and> only_elite
          then s\<lparr>hidden_layers :=
                   map (\<lambda>l. toggle_use_only_elite (layer_set_elite l es)) (hidden_layers s),
                 output_layer := toggle_use_only_elite (layer_set_elite (output_layer s) es)\<rparr>
          else s)"

text \<open>\<open>self.hidden_layers(x)\<close>: the blocks in order, each a linear layer and the
  activation; an exception of a layer ends the pass there.\<close>

fun hidden_forward ::
  "(real \<Rightarrow> real) \<Rightarrow> nat \<Rightarrow> layer list \<Rightarrow> tensor \<Rightarrow> (error + tensor) \<times> layer list"
where
  "hidden_forward act d [] x = (Inr x, [])"
| "hidden_forward act d (l # ls) x =
     (case layer_forward l d x of
        (Inl e, l') \<Rightarrow> (Inl e, l' # ls)
      | (Inr y, l') \<Rightarrow>
          (case hidden_forward act d ls (apply_activation act y) of
             (r, ls') \<Rightarrow> (r, l' # ls')))"

definition default_forward :: "bnn \<Rightarrow> tensor \<Rightarrow> bool \<Rightarrow> tensor result" where
  "default_forward s x only_elite =
     (let s1 = maybe_toggle_layers_use_only_elite s only_elite;
          d = passes s1;
          s2 = s1\<lparr>passes := Suc d\<rparr>
      in case hidden_forward (activation s2) d (hidden_layers s2) x of
           (Inl e, hs) \<Rightarrow> (Inl e, s2\<lparr>hidden_layers := hs\<rparr>)
         | (Inr h, hs) \<Rightarrow>
             (case layer_forward (output_layer s2) d h of
                (Inl e, ol) \<Rightarrow> (Inl e, s2\<lparr>hidden_layers := hs, output_layer := ol\<rparr>)
              | (Inr output, ol) \<Rightarrow>
                  (Inr output,
                   maybe_toggle_layers_use_only_elite
                     (s2\<lparr>hidden_layers := hs, output_layer := ol\<rparr>) only_elite)))"

definition model_len :: "bnn \<Rightarrow> nat" where
  "model_len s = (case elite_models s of Some es \<Rightarrow> length es | None \<Rightarrow> num_members s)"

definition forward_from_indices :: "bnn \<Rightarrow> tensor \<Rightarrow> nat list \<Rightarrow> tensor result" where
  "forward_from_indices s x model_shuffle_indices =
     (case x of
        T3 xs \<Rightarrow>
          (let batch_size = shape1 xs;
               num_models = model_len s
           in case index_dim1 xs model_shuffle_indices of
                Inl e \<Rightarrow> (Inl e, s)
              | Inr g \<Rightarrow>
                  if num_models = 0 then (Inl ZeroDivisionError, s)
                  else (case view3 num_models (batch_size div num_models) (flatten (T3 g)) of
                          Inl e \<Rightarrow> (Inl e, s)
                        | Inr shuffled_x \<Rightarrow>
                            (case default_forward s (T3 shuffled_x) True of
                               (Inl e, s') \<Rightarrow> (Inl e, s')
                             | (Inr pred, s') \<Rightarrow>
                                 (case view2 batch_size (flatten pred) of
                                    Inl e \<Rightarrow> (Inl e, s')
                                  | Inr p \<Rightarrow>
                                      (case index_put p model_shuffle_indices p of
                                         Inl e \<Rightarrow> (Inl e, s')
                                       | Inr r \<Rightarrow> (Inr (T2 r), s'))))))
      | _ \<Rightarrow> (Inl (ValueError ''not enough values to unpack''), s))"

definition index0 :: "tensor \<Rightarrow> error + tensor" where
  "index0 t =
     (case t of
        T3 (sl # _) \<Rightarrow> Inr (T2 sl)
      | T2 (r # _) \<Rightarrow> Inr (T1 r)
      | T1 (a # _) \<Rightarrow> Inr (T0 a)
      | _ \<Rightarrow> Inl IndexError)"

text \<open>\<open>randperm n\<close> stands for \<open>torch.randperm(n)\<close>, the permutation the call draws.\<close>

definition forward_ensemble ::
  "(nat \<Rightarrow> nat list) \<Rightarrow> bnn \<Rightarrow> tensor \<Rightarrow> nat list option \<Rightarrow> tensor result"
where
  "forward_ensemble randperm s x propagation_indices =
     (if propagation_method s = None then
        (case default_forward s x False of
           (Inl e, s') \<Rightarrow> (Inl e, s')
         | (Inr mean, s') \<Rightarrow> if num_members s' = 1 then (index0 mean, s') else (Inr mean, s'))
      else case x of
        T2 rows \<Rightarrow>
          if model_len s = 0 then (Inl ZeroDivisionError, s)
          else if length rows mod model_len s \<noteq> 0
            then (Inl (ValueError ''batch size must be a multiple of the number of models''), s)
          else if propagation_method s = Some ''random_model''
            then forward_from_indices s (T3 [rows]) (randperm (length rows))
          else if propagation_method s = Some ''fixed_model''
            then (case propagation_indices of
                    None \<Rightarrow> (Inl (ValueError ''propagation_indices must be provided''), s)
                  | Some idx \<Rightarrow> forward_from_indices s (T3 [rows]) idx)
          else if propagation_method s = Some ''expectation''
            then (case default_forward s (T3 [rows]) True of
                    (Inl e, s') \<Rightarrow> (Inl e, s')
                  | (Inr pred, s') \<Rightarrow> (mean_dim0 pred, s'))
          else (Inl (ValueError ''Invalid propagation method''), s)
      | _ \<Rightarrow> (Inl AssertionError, s))"

definition forward ::
  "(nat \<Rightarrow> nat list) \<Rightarrow> bnn \<Rightarrow> tensor \<Rightarrow> nat list option \<Rightarrow> bool \<Rightarrow> tensor result"
where
  "forward randperm s x propagation_indices use_propagation =
     (if use_propagation then forward_ensemble randperm s x propagation_indices
      else default_forward s x False)"

section \<open>The training objective\<close>

text \<open>A target is optional in the source (\<open>None\<close> by default); reading \<open>target.ndim\<close>
  of a missing target raises \<open>AttributeError\<close>.\<close>

definition mse_loss :: "(nat \<Rightarrow> nat list) \<Rightarrow> bnn \<Rightarrow> tensor \<Rightarrow> tensor option \<Rightarrow> tensor result" where
  "mse_loss randperm s model_in target =
     (case target of
        None \<Rightarrow> (Inl AttributeError, s)
      | Some t \<Rightarrow>
          if ndim model_in \<noteq> ndim t then (Inl AssertionError, s)
          else (case forward randperm s model_in None False of
                  (Inl e, s') \<Rightarrow> (Inl e, s')
                | (Inr pred_mean, s') \<Rightarrow>
                    (case F_mse_loss pred_mean t of
                       Inl e \<Rightarrow> (Inl e, s')
                     | Inr sq \<Rightarrow>
                         (case sum12 sq of
                            Inl e \<Rightarrow> (Inl e, s')
                          | Inr per_model \<Rightarrow> (Inr (sum_all per_model), s')))))"

text \<open>
  Modelled from the spec: \<open>kl_divergence_from_nn\<close> of the blitz library is not among the
  sources. By the specification (4.3) and the docstring of \<open>nn_kl_divergence\<close> it adds
  the KL term of every Bayesian unit of the network, hidden layers and output layer,
  into one tensor of rank 0.
\<close>

definition kl_divergence_from_nn :: "bnn \<Rightarrow> tensor" where
  "kl_divergence_from_nn s = T0 (\<Sum>l \<leftarrow> hidden_layers s @ [output_layer s]. kl_cur l)"

definition nn_kl_divergence :: "bnn \<Rightarrow> tensor" where
  "nn_kl_divergence s = kl_divergence_from_nn s"

text \<open>The complexity term one iteration of \<open>sample_elbo\<close> adds:
  \<open>self.nn_kl_divergence().mean() * complexity_cost_weight\<close>.\<close>

definition complexity_term :: "bnn \<Rightarrow> real \<Rightarrow> real" where
  "complexity_term s complexity_cost_weight =
     hd (flatten (mean_all (nn_kl_divergence s))) * complexity_cost_weight"

text \<open>The loop of \<open>sample_elbo\<close>: \<open>n\<close> iterations are left, \<open>acc\<close> is \<open>loss\<close> so far.\<close>

fun elbo_loop ::
  "(nat \<Rightarrow> nat list) \<Rightarrow> nat \<Rightarrow> bnn \<Rightarrow> tensor \<Rightarrow> tensor option \<Rightarrow> real \<Rightarrow> real \<Rightarrow> real result"
where
  "elbo_loop randperm 0 s inputs labels w acc = (Inr acc, s)"
| "elbo_loop randperm (Suc n) s inputs labels w acc =
     (case mse_loss randperm s inputs labels of
        (Inl e, s') \<Rightarrow> (Inl e, s')
      | (Inr v, s') \<Rightarrow>
          elbo_loop randperm n s' inputs labels w
            (acc + hd (flatten v) + complexity_term s' w))"

text \<open>\<open>sample_nbr\<close> is a Python integer: a range over a negative number is empty, and
  the final division of the integer 0 by \<open>sample_nbr = 0\<close> raises.\<close>

definition sample_elbo ::
  "(nat \<Rightarrow> nat list) \<Rightarrow> bnn \<Rightarrow> tensor \<Rightarrow> tensor option \<Rightarrow> int \<Rightarrow> real \<Rightarrow> tensor result"
where
  "sample_elbo randperm s inputs labels sample_nbr complexity_cost_weight =
     (case elbo_loop randperm (nat sample_nbr) s inputs labels complexity_cost_weight 0 of
        (Inl e, s') \<Rightarrow> (Inl e, s')
      | (Inr acc, s') \<Rightarrow>
          if sample_nbr = 0 then (Inl ZeroDivisionError, s')
          else (Inr (T0 (acc / real_of_int sample_nbr)), s'))"

type_synonym meta = "(string \<times> tensor) list"

definition loss ::
  "(nat \<Rightarrow> nat list) \<Rightarrow> bnn \<Rightarrow> tensor \<Rightarrow> tensor option \<Rightarrow> (tensor \<times> meta) result"
where
  "loss randperm s model_in target =
     (if freeze s then
        (case mse_loss randperm (freeze_model s) model_in target of
           (Inl e, s') \<Rightarrow> (Inl e, s')
         | (Inr v, s') \<Rightarrow> (Inr (v, []), s'))
      else
        (case sample_elbo randperm s model_in target 100 1 of
           (Inl e, s') \<Rightarrow> (Inl e, s')
         | (Inr v, s') \<Rightarrow> (Inr (v, []), s')))"

text \<open>\<open>target.repeat((num_members, 1, 1))\<close> of a rank-2 target.\<close>

definition repeat_members :: "nat \<Rightarrow> real list list \<Rightarrow> tensor" where
  "repeat_members e t = T3 (replicate e t)"

definition eval_score ::
  "(nat \<Rightarrow> nat list) \<Rightarrow> bnn \<Rightarrow> tensor \<Rightarrow> tensor option \<Rightarrow> (tensor \<times> meta) result"
where
  "eval_score randperm s model_in target =
     (case model_in of
        T2 _ \<Rightarrow>
          (case target of
             None \<Rightarrow> (Inl AttributeError, s)
           | Some (T2 t) \<Rightarrow>
               (case forward randperm s model_in None False of
                  (Inl e, s') \<Rightarrow> (Inl e, s')
                | (Inr pred, s') \<Rightarrow>
                    (case F_mse_loss pred (repeat_members (num_members s') t) of
                       Inl e \<Rightarrow> (Inl e, s')
                     | Inr sq \<Rightarrow> (Inr (sq, []), s')))
           | Some _ \<Rightarrow> (Inl AssertionError, s))
      | _ \<Rightarrow> (Inl AssertionError, s))"

section \<open>Elite selection\<close>

definition set_elite :: "bnn \<Rightarrow> nat list \<Rightarrow> bnn" where
  "set_elite s elite_indices =
     (if length elite_indices \<noteq> num_members s
      then s\<lparr>elite_models := Some elite_indices\<rparr>
      else s)"

section \<open>Predictions, well-formed ensembles and examples\<close>

text \<open>What one forward pass leaves of a layer: a unit that is not frozen has drawn
  sample \<open>d\<close> and holds its KL term.\<close>

definition sampled :: "nat \<Rightarrow> layer \<Rightarrow> layer" where
  "sampled d l = (if l_freeze l then l else l\<lparr>kl_cur := kl_of l d\<rparr>)"

text \<open>The prediction of member \<open>m\<close> for one input row in the pass with draw \<open>d\<close>: the
  hidden blocks in order, then the output unit.\<close>

fun hidden_row :: "(real \<Rightarrow> real) \<Rightarrow> nat \<Rightarrow> nat \<Rightarrow> layer list \<Rightarrow> real list \<Rightarrow> real list" where
  "hidden_row act d m [] x = x"
| "hidden_row act d m (l # ls) x = hidden_row act d m ls (map act (unit_row l (draw_of l d) m x))"

definition net_row :: "bnn \<Rightarrow> nat \<Rightarrow> nat \<Rightarrow> real list \<Rightarrow> real list" where
  "net_row s d m x =
     unit_row (output_layer s) (draw_of (output_layer s) d) m
       (hidden_row (activation s) d m (hidden_layers s) x)"

text \<open>The members a pass restricted to the elite runs, and the flags of the layers.\<close>

definition active_models :: "bnn \<Rightarrow> nat list" where
  "active_models s = (case elite_models s of Some es \<Rightarrow> es | None \<Rightarrow> [0..<num_members s])"

definition elite_flags :: "bnn \<Rightarrow> bool list" where
  "elite_flags s = map use_only_elite (hidden_layers s @ [output_layer s])"

definition freeze_flags :: "bnn \<Rightarrow> bool list" where
  "freeze_flags s = map l_freeze (hidden_layers s @ [output_layer s])"

text \<open>
  The invariant the constructor sets up and the methods keep: the widths of the layers
  chain from \<open>in_size\<close> to \<open>out_size\<close>, every layer holds \<open>num_members\<close> units and is not
  restricted to the elite between two calls, and an elite set is a non-empty list of
  distinct member indices (specification, 3).
\<close>

fun widths_ok :: "nat \<Rightarrow> layer list \<Rightarrow> nat \<Rightarrow> bool" where
  "widths_ok w [] w' = (w = w')"
| "widths_ok w (l # ls) w' = (in_features l = w \<and> widths_ok (out_features l) ls w')"

definition well_formed :: "bnn \<Rightarrow> bool" where
  "well_formed s \<longleftrightarrow>
     0 < num_members s \<and>
     widths_ok (in_size s) (hidden_layers s @ [output_layer s]) (out_size s) \<and>
     (\<forall>l \<in> set (hidden_layers s @ [output_layer s]).
        l_members l = num_members s \<and> \<not> use_only_elite l) \<and>
     (case elite_models s of
        None \<Rightarrow> True
      | Some es \<Rightarrow> es \<noteq> [] \<and> distinct es \<and> (\<forall>m \<in> set es. m < num_members s))"

definition is_batch :: "nat \<Rightarrow> real list list \<Rightarrow> bool" where
  "is_batch w rows \<longleftrightarrow> (\<forall>r \<in> set rows. length r = w)"

text \<open>The sum of the squared errors of per-member predictions against per-member
  targets, over members, examples and output dimensions.\<close>

definition sum_squared_errors :: "real list list list \<Rightarrow> real list list list \<Rightarrow> real" where
  "sum_squared_errors preds targets =
     (\<Sum>(p, t) \<leftarrow> zip preds targets. \<Sum>(pr, tr) \<leftarrow> zip p t. \<Sum>(a, b) \<leftarrow> zip pr tr. (a - b)\<^sup>2)"

text \<open>Example ensembles: the mean weights are 1, the bias of member \<open>m\<close> is \<open>m\<close>, draw \<open>d\<close>
  gives the weights \<open>d + 2\<close> and the KL term \<open>d + 1\<close>; the activation is the ReLU.\<close>

definition ex_params :: "nat \<Rightarrow> params" where
  "ex_params k =
     (\<lambda>dr m i j. (case dr of None \<Rightarrow> 1 | Some d \<Rightarrow> real d + 2), \<lambda>dr m j. real m, \<lambda>d. real d + 1)"

definition relu :: "real \<Rightarrow> real" where
  "relu v = max 0 v"

definition ex_net :: "string option \<Rightarrow> bnn" where
  "ex_net method = BNN_init 1 1 1 2 1 False method relu ex_params"

definition ex_elite :: bnn where
  "ex_elite = set_elite (ex_net None) [1]"

definition ex_frozen_flag :: bnn where
  "ex_frozen_flag = (ex_net None)\<lparr>freeze := True\<rparr>"

definition ex_two_kl :: bnn where
  "ex_two_kl = snd (default_forward (ex_net None) (T2 [[1]]) False)"

definition ex_randperm :: "nat \<Rightarrow> nat list" where
  "ex_randperm n = rev [0..<n]"

text \<open>Two layers are related when they differ in the stored KL term at most.\<close>

definition kl_only :: "layer \<Rightarrow> layer \<Rightarrow> bool" where
  "kl_only l l' \<longleftrightarrow> (\<exists>k. l' = l\<lparr>kl_cur := k\<rparr>)"

text \<open>The sum of the KL terms of the units, and, in the words of the specification
  (4.3, 9), their mean over the units.\<close>

definition kl_sum :: "bnn \<Rightarrow> real" where
  "kl_sum s = (\<Sum>l \<leftarrow> hidden_layers s @ [output_layer s]. kl_cur l)"

definition kl_mean_over_units :: "bnn \<Rightarrow> real" where
  "kl_mean_over_units s = kl_sum s / real (length (hidden_layers s @ [output_layer s]))"

text \<open>Auxiliary notions for the forward pass: the members a pass runs, the state an
  unrestricted pass leaves, and a layer as the toggle leaves it.\<close>

definition run_members :: "bnn \<Rightarrow> bool \<Rightarrow> nat list" where
  "run_members s only_elite = (if only_elite then active_models s else [0..<num_members s])"

definition after_pass :: "bnn \<Rightarrow> bnn" where
  "after_pass s =
     s\<lparr>passes := Suc (passes s),
       hidden_layers := map (sampled (passes s)) (hidden_layers s),
       output_layer := sampled (passes s) (output_layer s)\<rparr>"

definition mark :: "bnn \<Rightarrow> bool \<Rightarrow> layer \<Rightarrow> layer" where
  "mark s only_elite l =
     (case elite_models s of
        None \<Rightarrow> l
      | Some es \<Rightarrow> if 1 < num_members s \<and> only_elite
                   then toggle_use_only_elite (layer_set_elite l es) else l)"

definition ex_scenario :: bnn where
  "ex_scenario = BNN_init 5 4 2 3 10 False (Some ''expectation'') relu ex_params"

definition ex_batch :: "real list list" where
  "ex_batch = [[1, 0, 0, 0, 0], [0, 1, 0, 0, 0], [0, 0, 1, 2, 3]]"

text \<open>
  The unreduced squared errors of per-member predictions against per-member targets.
  A model input of rank 2 is one batch every member scores, an input of rank 3 holds one
  slice per member; \<open>valid_pair\<close> says that input and target have the shapes the
  docstring of \<open>loss\<close> asks for (\<open>E x B x Id\<close> with \<open>E x B x Od\<close>, or \<open>B x Id\<close> with
  \<open>B x Od\<close>).
\<close>

definition squared_errors :: "real list list list \<Rightarrow> real list list list \<Rightarrow> real list list list" where
  "squared_errors preds targets = map2 (map2 (map2 (\<lambda>a b. (a - b)\<^sup>2))) preds targets"

definition per_member :: "bnn \<Rightarrow> tensor \<Rightarrow> real list list list" where
  "per_member s x =
     (case x of T2 rows \<Rightarrow> replicate (num_members s) rows | T3 xs \<Rightarrow> xs | _ \<Rightarrow> [])"

definition valid_pair :: "bnn \<Rightarrow> tensor \<Rightarrow> tensor \<Rightarrow> bool" where
  "valid_pair s x t \<longleftrightarrow>
     (case (x, t) of
        (T2 rows, T2 trows) \<Rightarrow>
          is_batch (in_size s) rows \<and> is_batch (out_size s) trows \<and> length trows = length rows
      | (T3 xs, T3 ts) \<Rightarrow>
          length xs = num_members s \<and> length ts = num_members s \<and>
          (\<forall>(sl, tl) \<in> set (zip xs ts).
             is_batch (in_size s) sl \<and> is_batch (out_size s) tl \<and> length tl = length sl)
      | _ \<Rightarrow> False)"

text \<open>The predictions of all members in the pass with draw \<open>d\<close>, and the sum of their
  squared errors.\<close>

definition predictions :: "bnn \<Rightarrow> nat \<Rightarrow> tensor \<Rightarrow> real list list list" where
  "predictions s d x = map2 (\<lambda>m. map (net_row s d m)) [0..<num_members s] (per_member s x)"

definition sse :: "bnn \<Rightarrow> nat \<Rightarrow> tensor \<Rightarrow> tensor \<Rightarrow> real" where
  "sse s d x t = sum_squared_errors (predictions s d x) (per_member s t)"

text \<open>The prediction of member \<open>m\<close> from the posterior means: no weight is drawn.\<close>

fun hidden_mean_row :: "(real \<Rightarrow> real) \<Rightarrow> nat \<Rightarrow> layer list \<Rightarrow> real list \<Rightarrow> real list" where
  "hidden_mean_row act m [] x = x"
| "hidden_mean_row act m (l # ls) x = hidden_mean_row act m ls (map act (unit_row l None m x))"

definition mean_row :: "bnn \<Rightarrow> nat \<Rightarrow> real list \<Rightarrow> real list" where
  "mean_row s m x =
     unit_row (output_layer s) None m (hidden_mean_row (activation s) m (hidden_layers s) x)"

definition mean_predictions :: "bnn \<Rightarrow> tensor \<Rightarrow> real list list list" where
  "mean_predictions s x = map2 (\<lambda>m. map (mean_row s m)) [0..<num_members s] (per_member s x)"

text \<open>The sum of the KL terms the units hold after the pass with draw \<open>d\<close>.\<close>

definition kl_at :: "bnn \<Rightarrow> nat \<Rightarrow> real" where
  "kl_at s d = (\<Sum>l \<leftarrow> hidden_layers s @ [output_layer s]. kl_cur (sampled d l))"

definition ex_frozen :: bnn where
  "ex_frozen = BNN_init 1 1 1 2 1 True None relu ex_params"


section \<open>Properties\<close>

subsection \<open>Elite selection\<close>

text \<open>
  C3. For every index sequence passed to \<open>set_elite\<close>: if its length equals \<open>num_members\<close>
  the call changes nothing (\<open>elite_models\<close> included), and otherwise \<open>elite_models\<close> is
  replaced by the given list and nothing else changes.
\<close>

theorem set_elite_noop_or_replace:
  "(length idx = num_members s \<longrightarrow> set_elite s idx = s) \<and>
   (length idx \<noteq> num_members s \<longrightarrow> set_elite s idx = s\<lparr>elite_models := Some idx\<rparr>)"
  by (simp add: set_elite_def)

theorem set_elite_noop_or_replace_witness:
  "set_elite (ex_net None) [1, 0] = ex_net None \<and>
   set_elite (ex_net None) [1] = (ex_net None)\<lparr>elite_models := Some [1]\<rparr> \<and>
   elite_models (ex_net None) = None"
  using set_elite_noop_or_replace [of "[1, 0]" "ex_net None"]
        set_elite_noop_or_replace [of "[1]" "ex_net None"]
  by (simp add: ex_net_def BNN_init_def)

subsection \<open>What a forward pass changes\<close>

lemmas ex_defs = ex_net_def BNN_init_def create_linear_layer_def ex_params_def relu_def
  set_elite_def ex_elite_def

lemmas run_defs = default_forward_def maybe_toggle_layers_use_only_elite_def layer_forward_def
  toggle_use_only_elite_def layer_set_elite_def members_used_def slices_of_def bzip_def
  unit_row_def draw_of_def apply_activation_def Let_def elite_flags_def eval_nat_numeral

lemmas loss_defs = loss_def mse_loss_def forward_def freeze_model_def freeze_flags_def
  F_mse_loss_def bmap_def to3_def from3_def sum12_def sum_all_def ex_frozen_flag_def

lemma snd_layer_forward: "snd (layer_forward l d x) = sampled d l"
  by (simp add: layer_forward_def sampled_def Let_def split: option.splits sum.splits)

lemma sampled_fields [simp]:
  "l_freeze (sampled d l) = l_freeze l"
  "use_only_elite (sampled d l) = use_only_elite l"
  "l_elite (sampled d l) = l_elite l"
  "l_members (sampled d l) = l_members l"
  "in_features (sampled d l) = in_features l"
  "out_features (sampled d l) = out_features l"
  "weight (sampled d l) = weight l"
  "bias (sampled d l) = bias l"
  "kl_of (sampled d l) = kl_of l"
  by (simp_all add: sampled_def)

text \<open>A pass through the hidden blocks samples a prefix of them: all of them when it
  returns, the ones up to the failing layer when it raises.\<close>

lemma hidden_forward_layers:
  "\<exists>k \<le> length ls. snd (hidden_forward act d ls x) = map (sampled d) (take k ls) @ drop k ls"
proof (induction ls arbitrary: x)
  case Nil
  then show ?case by simp
next
  case (Cons l ls)
  obtain r l' where lf: "layer_forward l d x = (r, l')" by (cases "layer_forward l d x")
  then have l': "l' = sampled d l" using snd_layer_forward[of l d x] by simp
  show ?case
  proof (cases r)
    case (Inl e)
    then have "snd (hidden_forward act d (l # ls) x) = map (sampled d) (take 1 (l # ls)) @ drop 1 (l # ls)"
      using lf l' by simp
    then show ?thesis by (metis One_nat_def Suc_leI length_Cons zero_less_Suc)
  next
    case (Inr y)
    from Cons.IH[of "apply_activation act y"] obtain k where
      k: "k \<le> length ls"
         "snd (hidden_forward act d ls (apply_activation act y)) = map (sampled d) (take k ls) @ drop k ls"
      by blast
    have "snd (hidden_forward act d (l # ls) x) = map (sampled d) (take (Suc k) (l # ls)) @ drop (Suc k) (l # ls)"
      using lf l' Inr k(2) by (auto split: prod.splits)
    then show ?thesis using k(1) by (metis Suc_le_mono length_Cons)
  qed
qed

lemma kl_only_sampled: "kl_only l (sampled d l)"
  unfolding kl_only_def sampled_def
  by (cases "l_freeze l") (auto intro: exI[of _ "kl_cur l"])

lemma kl_only_refl: "kl_only l l"
  unfolding kl_only_def by (auto intro: exI[of _ "kl_cur l"])

lemma hidden_forward_kl_only:
  "list_all2 kl_only ls (snd (hidden_forward act d ls x))"
proof -
  obtain k where k: "snd (hidden_forward act d ls x) = map (sampled d) (take k ls) @ drop k ls"
    using hidden_forward_layers by blast
  have "list_all2 kl_only (take k ls @ drop k ls) (map (sampled d) (take k ls) @ drop k ls)"
    by (intro list_all2_appendI) (simp_all add: list_all2_conv_all_nth kl_only_sampled kl_only_refl)
  then show ?thesis using k by simp
qed

lemma kl_only_flags:
  "list_all2 kl_only ls hs \<Longrightarrow> map use_only_elite hs = map use_only_elite ls"
  "list_all2 kl_only ls hs \<Longrightarrow> map l_freeze hs = map l_freeze ls"
  by (induction rule: list_all2_induct) (auto simp: kl_only_def)

lemma toggle_frame [simp]:
  "freeze (maybe_toggle_layers_use_only_elite s oe) = freeze s"
  "num_members (maybe_toggle_layers_use_only_elite s oe) = num_members s"
  "elite_models (maybe_toggle_layers_use_only_elite s oe) = elite_models s"
  "passes (maybe_toggle_layers_use_only_elite s oe) = passes s"
  "activation (maybe_toggle_layers_use_only_elite s oe) = activation s"
  "propagation_method (maybe_toggle_layers_use_only_elite s oe) = propagation_method s"
  "in_size (maybe_toggle_layers_use_only_elite s oe) = in_size s"
  "out_size (maybe_toggle_layers_use_only_elite s oe) = out_size s"
  by (simp_all add: maybe_toggle_layers_use_only_elite_def split: option.splits)

lemma toggle_freeze_flags:
  "freeze_flags (maybe_toggle_layers_use_only_elite s oe) = freeze_flags s"
  by (simp add: maybe_toggle_layers_use_only_elite_def freeze_flags_def toggle_use_only_elite_def
      layer_set_elite_def split: option.splits)

lemma toggle_noop:
  "elite_models s = None \<or> num_members s = 1 \<or> \<not> oe \<Longrightarrow> maybe_toggle_layers_use_only_elite s oe = s"
  by (auto simp: maybe_toggle_layers_use_only_elite_def split: option.splits)

lemma toggle_flags:
  "elite_flags (maybe_toggle_layers_use_only_elite s oe) =
     (if elite_models s \<noteq> None \<and> 1 < num_members s \<and> oe then map Not (elite_flags s) else elite_flags s)"
  by (auto simp: maybe_toggle_layers_use_only_elite_def elite_flags_def toggle_use_only_elite_def
      layer_set_elite_def split: option.splits)

text \<open>The state a call of \<open>_default_forward\<close> ends in: toggled once when a layer
  raises, toggled twice when the pass returns.\<close>

lemma default_forward_state:
  fixes s x oe
  defines "s1 \<equiv> maybe_toggle_layers_use_only_elite s oe"
  shows "\<exists>hs ol. list_all2 kl_only (hidden_layers s1) hs \<and> kl_only (output_layer s1) ol \<and>
           ((\<exists>e. default_forward s x oe =
                  (Inl e, s1\<lparr>passes := Suc (passes s), hidden_layers := hs, output_layer := ol\<rparr>)) \<or>
            (\<exists>out. default_forward s x oe =
                  (Inr out, maybe_toggle_layers_use_only_elite
                     (s1\<lparr>passes := Suc (passes s), hidden_layers := hs, output_layer := ol\<rparr>) oe)))"
proof -
  obtain r hs where hf: "hidden_forward (activation s1) (passes s1) (hidden_layers s1) x = (r, hs)"
    by (cases "hidden_forward (activation s1) (passes s1) (hidden_layers s1) x")
  have hs: "list_all2 kl_only (hidden_layers s1) hs"
    using hidden_forward_kl_only[of "hidden_layers s1" "activation s1" "passes s1" x] hf by simp
  have p: "passes s1 = passes s" by (simp add: s1_def)
  show ?thesis
  proof (cases r)
    case (Inl e)
    have "default_forward s x oe =
       (Inl e, s1\<lparr>passes := Suc (passes s), hidden_layers := hs, output_layer := output_layer s1\<rparr>)"
      using hf Inl p by (simp add: default_forward_def Let_def s1_def[symmetric])
    then show ?thesis using hs kl_only_refl by blast
  next
    case (Inr h)
    obtain r2 ol where lf: "layer_forward (output_layer s1) (passes s1) h = (r2, ol)"
      by (cases "layer_forward (output_layer s1) (passes s1) h")
    then have ol: "kl_only (output_layer s1) ol"
      using snd_layer_forward[of "output_layer s1" "passes s1" h] kl_only_sampled by simp
    show ?thesis
    proof (cases r2)
      case (Inl e)
      have "default_forward s x oe =
         (Inl e, s1\<lparr>passes := Suc (passes s), hidden_layers := hs, output_layer := ol\<rparr>)"
        using hf Inl \<open>r = Inr h\<close> lf p by (simp add: default_forward_def Let_def s1_def[symmetric])
      then show ?thesis using hs ol by blast
    next
      case (Inr out)
      have "default_forward s x oe =
         (Inr out, maybe_toggle_layers_use_only_elite
            (s1\<lparr>passes := Suc (passes s), hidden_layers := hs, output_layer := ol\<rparr>) oe)"
        using hf Inr \<open>r = Inr h\<close> lf p by (simp add: default_forward_def Let_def s1_def[symmetric])
      then show ?thesis using hs ol by blast
    qed
  qed
qed

lemma elite_flags_upd:
  "list_all2 kl_only (hidden_layers s1) hs \<Longrightarrow> kl_only (output_layer s1) ol \<Longrightarrow>
   elite_flags (s1\<lparr>passes := p, hidden_layers := hs, output_layer := ol\<rparr>) = elite_flags s1"
  by (auto simp: elite_flags_def kl_only_flags kl_only_def)

lemma freeze_flags_upd:
  "list_all2 kl_only (hidden_layers s1) hs \<Longrightarrow> kl_only (output_layer s1) ol \<Longrightarrow>
   freeze_flags (s1\<lparr>passes := p, hidden_layers := hs, output_layer := ol\<rparr>) = freeze_flags s1"
  by (auto simp: freeze_flags_def kl_only_flags kl_only_def)

lemma default_forward_frame:
  "freeze (snd (default_forward s x oe)) = freeze s \<and>
   num_members (snd (default_forward s x oe)) = num_members s \<and>
   elite_models (snd (default_forward s x oe)) = elite_models s \<and>
   passes (snd (default_forward s x oe)) = Suc (passes s) \<and>
   freeze_flags (snd (default_forward s x oe)) = freeze_flags s"
proof -
  let ?s1 = "maybe_toggle_layers_use_only_elite s oe"
  obtain hs ol where h: "list_all2 kl_only (hidden_layers ?s1) hs" "kl_only (output_layer ?s1) ol"
    and d: "(\<exists>e. default_forward s x oe =
                  (Inl e, ?s1\<lparr>passes := Suc (passes s), hidden_layers := hs, output_layer := ol\<rparr>)) \<or>
            (\<exists>out. default_forward s x oe =
                  (Inr out, maybe_toggle_layers_use_only_elite
                     (?s1\<lparr>passes := Suc (passes s), hidden_layers := hs, output_layer := ol\<rparr>) oe))"
    using default_forward_state[of s oe x] by blast
  let ?s2 = "?s1\<lparr>passes := Suc (passes s), hidden_layers := hs, output_layer := ol\<rparr>"
  have f2: "freeze_flags ?s2 = freeze_flags s"
    using freeze_flags_upd[OF h] toggle_freeze_flags[of s oe] by simp
  have f3: "freeze_flags (maybe_toggle_layers_use_only_elite ?s2 oe) = freeze_flags s"
    using toggle_freeze_flags[of ?s2 oe] f2 by simp
  show ?thesis using d f2 f3 by auto
qed

lemma mse_loss_frame:
  "freeze (snd (mse_loss rp s x t)) = freeze s \<and>
   freeze_flags (snd (mse_loss rp s x t)) = freeze_flags s"
  using default_forward_frame[of s x False]
  by (auto simp: mse_loss_def forward_def split: option.splits prod.splits sum.splits)

lemma freeze_model_flags:
  "freeze (freeze_model s)" "freeze_flags (freeze_model s) = replicate (length (freeze_flags s)) True"
  by (simp_all add: freeze_model_def freeze_flags_def comp_def map_replicate_const replicate_append_same)

subsection \<open>The elite toggle of the default forward pass\<close>

text \<open>
  C9, as the code has it. A call of the default forward pass that returns leaves the
  \<open>use_only_elite\<close> flag of every layer as it was on entry: the toggle runs once before
  and once after the layer stack. When \<open>elite_models\<close> is unset or \<open>num_members\<close> is 1 the
  toggle changes nothing, and then the flags are as on entry after every call, also
  one that raises.
\<close>

theorem default_forward_restores_flags:
  "(default_forward s x oe = (Inr out, s') \<longrightarrow> elite_flags s' = elite_flags s) \<and>
   (elite_models s = None \<or> num_members s = 1 \<longrightarrow>
      maybe_toggle_layers_use_only_elite s oe = s \<and>
      elite_flags (snd (default_forward s x oe)) = elite_flags s)"
proof -
  let ?s1 = "maybe_toggle_layers_use_only_elite s oe"
  obtain hs ol where h: "list_all2 kl_only (hidden_layers ?s1) hs" "kl_only (output_layer ?s1) ol"
    and d: "(\<exists>e. default_forward s x oe =
                  (Inl e, ?s1\<lparr>passes := Suc (passes s), hidden_layers := hs, output_layer := ol\<rparr>)) \<or>
            (\<exists>out. default_forward s x oe =
                  (Inr out, maybe_toggle_layers_use_only_elite
                     (?s1\<lparr>passes := Suc (passes s), hidden_layers := hs, output_layer := ol\<rparr>) oe))"
    using default_forward_state[of s oe x] by blast
  let ?s2 = "?s1\<lparr>passes := Suc (passes s), hidden_layers := hs, output_layer := ol\<rparr>"
  have f2: "elite_flags ?s2 = elite_flags ?s1" using h by (rule elite_flags_upd)
  have c2: "elite_models ?s2 = elite_models s" "num_members ?s2 = num_members s" by simp_all
  have f3: "elite_flags (maybe_toggle_layers_use_only_elite ?s2 oe) = elite_flags s"
  proof (cases "elite_models s \<noteq> None \<and> 1 < num_members s \<and> oe")
    case True
    then have "elite_flags (maybe_toggle_layers_use_only_elite ?s2 oe) = map Not (elite_flags ?s2)"
      using toggle_flags[of ?s2 oe] c2 by presburger
    moreover have "elite_flags ?s1 = map Not (elite_flags s)"
      using True toggle_flags[of s oe] by presburger
    ultimately show ?thesis using f2 by (simp add: comp_def)
  next
    case False
    then have "elite_flags (maybe_toggle_layers_use_only_elite ?s2 oe) = elite_flags ?s2"
      using toggle_flags[of ?s2 oe] c2 by presburger
    moreover have "elite_flags ?s1 = elite_flags s"
      using False toggle_flags[of s oe] by presburger
    ultimately show ?thesis using f2 by simp
  qed
  have a: "default_forward s x oe = (Inr out, s') \<longrightarrow> elite_flags s' = elite_flags s"
    using d f3 by auto
  have b: "elite_models s = None \<or> num_members s = 1 \<longrightarrow>
      maybe_toggle_layers_use_only_elite s oe = s \<and>
      elite_flags (snd (default_forward s x oe)) = elite_flags s"
  proof
    assume n: "elite_models s = None \<or> num_members s = 1"
    then have t: "?s1 = s" using toggle_noop[of s oe] by blast
    have "elite_flags (snd (default_forward s x oe)) = elite_flags s"
      using d f2 f3 t by auto
    then show "?s1 = s \<and> elite_flags (snd (default_forward s x oe)) = elite_flags s"
      using t by simp
  qed
  show ?thesis using a b by blast
qed

theorem default_forward_restores_flags_witness:
  "default_forward ex_elite (T2 [[1]]) True =
     (Inr (T3 [[[7]]]), snd (default_forward ex_elite (T2 [[1]]) True)) \<and>
   elite_flags (snd (default_forward ex_elite (T2 [[1]]) True)) = elite_flags ex_elite \<and>
   elite_models ex_elite = Some [1] \<and>
   elite_models (ex_net None) = None \<and>
   maybe_toggle_layers_use_only_elite (ex_net None) True = ex_net None \<and>
   elite_flags (snd (default_forward (ex_net None) (T2 [[1, 2]]) True)) = elite_flags (ex_net None)"
proof -
  have r: "fst (default_forward ex_elite (T2 [[1]]) True) = Inr (T3 [[[7]]])"
    by (simp add: ex_defs run_defs)
  then have e: "default_forward ex_elite (T2 [[1]]) True =
     (Inr (T3 [[[7]]]), snd (default_forward ex_elite (T2 [[1]]) True))"
    by (metis prod.collapse)
  have n: "elite_models (ex_net None) = None" "elite_models ex_elite = Some [1]"
    by (simp_all add: ex_defs)
  show ?thesis
    using default_forward_restores_flags
            [of ex_elite "T2 [[1]]" True "T3 [[[7]]]" "snd (default_forward ex_elite (T2 [[1]]) True)"]
          default_forward_restores_flags [of "ex_net None" "T2 [[1, 2]]" True]
          e n
    by simp
qed

text \<open>A call that raises inside the layer stack never reaches the second toggle: with an
  elite set chosen, a batch whose rows are too wide for the first layer leaves every
  layer restricted to the elite.\<close>

theorem default_forward_raising_keeps_toggle:
  "fst (default_forward ex_elite (T2 [[1, 2]]) True) = Inl RuntimeError \<and>
   elite_flags ex_elite = [False, False] \<and>
   elite_flags (snd (default_forward ex_elite (T2 [[1, 2]]) True)) = [True, True]"
  by (simp add: ex_defs run_defs)

subsection \<open>The frozen loss re-freezes the modules\<close>

text \<open>
  C10. A call of \<open>loss\<close> with the \<open>freeze\<close> flag set is not a pure computation: it calls
  \<open>freeze_model\<close> first, so in the state it leaves, whether it returns or raises, the
  flag of the ensemble and the \<open>freeze\<close> flag of every Bayesian module are set, whatever
  the module flags were before.
\<close>

theorem frozen_loss_overwrites_module_flags:
  assumes "freeze s"
  shows "freeze (snd (loss rp s x t)) \<and>
         freeze_flags (snd (loss rp s x t)) = replicate (length (freeze_flags s)) True"
proof -
  have "snd (loss rp s x t) = snd (mse_loss rp (freeze_model s) x t)"
    using assms by (simp add: loss_def split: prod.splits sum.splits)
  then show ?thesis
    using mse_loss_frame[of rp "freeze_model s" x t] freeze_model_flags[of s] by simp
qed

theorem frozen_loss_overwrites_module_flags_witness:
  "freeze ex_frozen_flag \<and> freeze_flags ex_frozen_flag = [False, False] \<and>
   freeze_flags (snd (loss ex_randperm ex_frozen_flag (T2 [[1]]) (Some (T2 [[1]])))) = [True, True] \<and>
   fst (loss ex_randperm ex_frozen_flag (T2 [[1]]) (Some (T2 [[1]]))) = Inr (T0 4, [])"
  using frozen_loss_overwrites_module_flags [of ex_frozen_flag ex_randperm "T2 [[1]]" "Some (T2 [[1]])"]
  by (simp add: loss_defs ex_defs run_defs)

subsection \<open>A batch that does not divide among the models\<close>

text \<open>
  C6. For every propagation method among \<open>random_model\<close>, \<open>fixed_model\<close> and \<open>expectation\<close>:
  when the batch size of a rank-2 input is not a multiple of the active model count
  (the length of \<open>elite_models\<close> when set, the ensemble size otherwise), \<open>forward\<close> raises
  before any layer runs and before any tensor is produced, and leaves the state of the
  model as it was. The error is the \<open>ValueError\<close> of the batch-size check; for an empty
  elite list it is the \<open>ZeroDivisionError\<close> of the modulo in that check.
\<close>

theorem forward_rejects_partial_batch:
  assumes "propagation_method s \<in> {Some ''random_model'', Some ''fixed_model'', Some ''expectation''}"
      and "length rows mod model_len s \<noteq> 0"
  shows "forward rp s (T2 rows) idx True =
           (Inl (if model_len s = 0 then ZeroDivisionError
                 else ValueError ''batch size must be a multiple of the number of models''), s)"
  using assms by (auto simp: forward_def forward_ensemble_def)

theorem forward_rejects_partial_batch_witness:
  "forward ex_randperm (ex_net (Some ''expectation'')) (T2 [[1]]) None True =
     (Inl (ValueError ''batch size must be a multiple of the number of models''),
      ex_net (Some ''expectation'')) \<and>
   forward ex_randperm (set_elite (ex_net (Some ''fixed_model'')) []) (T2 [[1]]) (Some [0]) True =
     (Inl ZeroDivisionError, set_elite (ex_net (Some ''fixed_model'')) [])"
  using forward_rejects_partial_batch [of "ex_net (Some ''expectation'')" "[[1]]" ex_randperm None]
        forward_rejects_partial_batch [of "set_elite (ex_net (Some ''fixed_model'')) []" "[[1]]" ex_randperm "Some [0]"]
  by (simp add: ex_defs model_len_def)

subsection \<open>The complexity term of the variational objective\<close>

lemma complexity_term_kl_sum: "complexity_term s w = w * kl_sum s"
  by (simp add: complexity_term_def nn_kl_divergence_def kl_divergence_from_nn_def mean_all_def kl_sum_def)

text \<open>
  C2, as the code has it. The KL aggregation adds the KL terms of all Bayesian units
  into one tensor of rank 0, and the mean of a tensor of rank 0 is its only entry. So
  every Monte-Carlo iteration of the unfrozen objective adds
  \<open>complexity_cost_weight\<close> times the sum of the KL terms of the units; the sum is not
  divided by the number of units.
\<close>

theorem complexity_term_is_weighted_kl_sum:
  "complexity_term s w = w * kl_sum s \<and>
   elbo_loop rp (Suc n) s x t w acc =
     (case mse_loss rp s x t of
        (Inl e, s') \<Rightarrow> (Inl e, s')
      | (Inr v, s') \<Rightarrow> elbo_loop rp n s' x t w (acc + hd (flatten v) + w * kl_sum s'))"
  by (simp add: complexity_term_kl_sum split: prod.splits sum.splits)

theorem complexity_term_is_weighted_kl_sum_witness:
  "complexity_term ex_two_kl 3 = 3 * kl_sum ex_two_kl \<and>
   elbo_loop ex_randperm (Suc 0) ex_two_kl (T0 0) None 3 0 = (Inl AttributeError, ex_two_kl)"
  using complexity_term_is_weighted_kl_sum [of ex_two_kl 3 ex_randperm 0 "T0 0" None 0]
  by (simp add: mse_loss_def)

lemma ex_two_kl_layers:
  "map kl_cur (hidden_layers ex_two_kl) = [1]" "kl_cur (output_layer ex_two_kl) = 1"
  by (simp_all add: ex_two_kl_def ex_defs run_defs sampled_def)

text \<open>After one pass of the example ensemble both units hold the KL term 1: the term
  added with weight 1 is 2, the mean over the two units would be 1.\<close>

theorem complexity_term_is_not_mean_over_units:
  "complexity_term ex_two_kl 1 \<noteq> 1 * kl_mean_over_units ex_two_kl"
proof -
  have k: "kl_sum ex_two_kl = 2"
    using ex_two_kl_layers by (simp add: kl_sum_def)
  have n: "length (hidden_layers ex_two_kl) = 1"
    using ex_two_kl_layers(1) by (metis length_map length_Cons list.size(3) One_nat_def)
  show ?thesis
    using k n by (simp add: complexity_term_kl_sum kl_mean_over_units_def)
qed

subsection \<open>The layer stack, member by member\<close>

lemma length_unit_row [simp]: "length (unit_row l dr m x) = out_features l"
  by (simp add: unit_row_def)

lemma map2_map2:
  "map2 f ms (map2 g ms xs) = map2 (\<lambda>m x. f m (g m x)) ms xs"
proof (induction ms arbitrary: xs)
  case Nil
  then show ?case by simp
next
  case (Cons m ms)
  then show ?case by (cases xs) simp_all
qed

lemma layer_forward_zip:
  assumes "\<forall>m \<in> set (members_used l). m < l_members l"
      and "length xs = length (members_used l)"
      and "\<forall>sl \<in> set xs. is_batch (in_features l) sl"
  shows "layer_forward l d (T3 xs) =
           (Inr (T3 (map2 (\<lambda>m. map (unit_row l (draw_of l d) m)) (members_used l) xs)), sampled d l)"
proof -
  have a: "\<not> (\<exists>m \<in> set (members_used l). l_members l \<le> m)" using assms(1) by auto
  have b: "\<not> (\<exists>sl \<in> set xs. \<exists>r \<in> set sl. length r \<noteq> in_features l)"
    using assms(3) by (auto simp: is_batch_def)
  have c: "bzip (members_used l) xs = Inr (zip (members_used l) xs)"
    using assms(2) by (simp add: bzip_def)
  show ?thesis
    unfolding layer_forward_def Let_def using a b c
    by (simp add: slices_of_def sampled_def)
qed

lemma layer_forward_out_batch:
  "\<forall>sl \<in> set (map2 (\<lambda>m. map (unit_row l dr m)) ms xs). is_batch (out_features l) sl"
  by (auto simp: is_batch_def set_zip)

lemma map2_snd: "length ms = length xs \<Longrightarrow> map2 (\<lambda>m x. x) ms xs = xs"
  by (induction rule: list_induct2) auto

lemma map_map2: "map h (map2 g ms xs) = map2 (\<lambda>m x. h (g m x)) ms xs"
  by (simp add: case_prod_beta comp_def)

lemma hidden_forward_zip:
  assumes "\<forall>l \<in> set ls. members_used l = ms \<and> (\<forall>m \<in> set ms. m < l_members l)"
      and "widths_ok w ls w'"
      and "length xs = length ms"
      and "\<forall>sl \<in> set xs. is_batch w sl"
  shows "hidden_forward act d ls (T3 xs) =
           (Inr (T3 (map2 (\<lambda>m. map (hidden_row act d m ls)) ms xs)), map (sampled d) ls) \<and>
         (\<forall>sl \<in> set (map2 (\<lambda>m. map (hidden_row act d m ls)) ms xs). is_batch w' sl)"
  using assms
proof (induction ls arbitrary: xs w)
  case Nil
  have "\<And>m. map (hidden_row act d m []) = (\<lambda>sl. sl)"
    by (rule ext) (simp add: map_idI)
  then have e: "map2 (\<lambda>m. map (hidden_row act d m [])) ms xs = xs"
    using Nil.prems(3) map2_snd[of ms xs] by simp
  show ?case unfolding e using Nil.prems(2,4) by simp
next
  case (Cons l ls)
  let ?g = "\<lambda>m x. map act (unit_row l (draw_of l d) m x)"
  let ?xs1 = "map2 (\<lambda>m. map (unit_row l (draw_of l d) m)) ms xs"
  let ?xs2 = "map2 (\<lambda>m. map (?g m)) ms xs"
  have ml: "members_used l = ms" "\<forall>m \<in> set ms. m < l_members l"
    using Cons.prems(1) by simp_all
  have wl: "in_features l = w" "widths_ok (out_features l) ls w'"
    using Cons.prems(2) by simp_all
  have lf: "layer_forward l d (T3 xs) = (Inr (T3 ?xs1), sampled d l)"
    using layer_forward_zip[of l xs d] ml wl(1) Cons.prems(3,4) by simp
  have act: "apply_activation act (T3 ?xs1) = T3 ?xs2"
    by (simp add: apply_activation_def case_prod_beta comp_def)
  have len2: "length ?xs2 = length ms" using Cons.prems(3) by simp
  have b2: "\<forall>sl \<in> set ?xs2. is_batch (out_features l) sl"
    by (auto simp: is_batch_def set_zip)
  have ih: "hidden_forward act d ls (T3 ?xs2) =
           (Inr (T3 (map2 (\<lambda>m. map (hidden_row act d m ls)) ms ?xs2)), map (sampled d) ls) \<and>
         (\<forall>sl \<in> set (map2 (\<lambda>m. map (hidden_row act d m ls)) ms ?xs2). is_batch w' sl)"
    using Cons.IH[of "out_features l" ?xs2] Cons.prems(1) wl(2) len2 b2 by simp
  have comp: "map2 (\<lambda>m. map (hidden_row act d m ls)) ms ?xs2 =
              map2 (\<lambda>m. map (hidden_row act d m (l # ls))) ms xs"
    by (auto simp: map2_map2 comp_def)
  have "hidden_forward act d (l # ls) (T3 xs) =
          (Inr (T3 (map2 (\<lambda>m. map (hidden_row act d m ls)) ms ?xs2)), map (sampled d) (l # ls))"
    using lf act ih by simp
  then show ?case using ih unfolding comp by blast
qed


lemma toggle_layers:
  "hidden_layers (maybe_toggle_layers_use_only_elite s oe) = map (mark s oe) (hidden_layers s)"
  "output_layer (maybe_toggle_layers_use_only_elite s oe) = mark s oe (output_layer s)"
  by (auto simp: maybe_toggle_layers_use_only_elite_def mark_def[abs_def] split: option.splits)

lemma mark_fields [simp]:
  "in_features (mark s oe l) = in_features l"
  "out_features (mark s oe l) = out_features l"
  "l_members (mark s oe l) = l_members l"
  "l_freeze (mark s oe l) = l_freeze l"
  "weight (mark s oe l) = weight l"
  "bias (mark s oe l) = bias l"
  "kl_of (mark s oe l) = kl_of l"
  "kl_cur (mark s oe l) = kl_cur l"
  by (simp_all add: mark_def toggle_use_only_elite_def layer_set_elite_def split: option.splits)

lemma unit_row_mark [simp]: "unit_row (mark s oe l) = unit_row l"
  by (intro ext) (simp add: unit_row_def)

lemma draw_of_mark [simp]: "draw_of (mark s oe l) = draw_of l"
  by (intro ext) (simp add: draw_of_def)

lemma hidden_row_mark [simp]:
  "hidden_row act d m (map (mark s oe) ls) x = hidden_row act d m ls x"
  by (induction ls arbitrary: x) simp_all

lemma widths_ok_mark [simp]: "widths_ok w (map (mark s oe) ls) w' = widths_ok w ls w'"
  by (induction ls arbitrary: w) simp_all

lemma widths_ok_append:
  "widths_ok w (hs @ [ol]) w' \<longleftrightarrow> widths_ok w hs (in_features ol) \<and> out_features ol = w'"
  by (induction hs arbitrary: w) auto

lemma elite_single:
  assumes "es \<noteq> []" "distinct es" "\<forall>m \<in> set es. m < (1::nat)"
  shows "es = [0]"
proof (cases es)
  case Nil
  then show ?thesis using assms by simp
next
  case (Cons a r)
  then have "a = 0" using assms(3) by simp
  moreover have "r = []"
  proof (cases r)
    case Nil
    then show ?thesis .
  next
    case (Cons b r')
    then show ?thesis using assms(2,3) \<open>es = a # r\<close> by auto
  qed
  ultimately show ?thesis using Cons by simp
qed

lemma members_used_mark:
  assumes "well_formed s" "l_members l = num_members s" "\<not> use_only_elite l"
  shows "members_used (mark s oe l) = run_members s oe"
proof (cases "elite_models s")
  case None
  then show ?thesis using assms
    by (simp add: mark_def members_used_def run_members_def active_models_def)
next
  case (Some es)
  have wf: "es \<noteq> []" "distinct es" "\<forall>m \<in> set es. m < num_members s" "0 < num_members s"
    using assms(1) Some by (simp_all add: well_formed_def)
  show ?thesis
  proof (cases "1 < num_members s")
    case True
    then show ?thesis using Some assms(2,3)
      by (simp add: mark_def members_used_def run_members_def active_models_def
          toggle_use_only_elite_def layer_set_elite_def)
  next
    case False
    then have one: "num_members s = 1" using wf(4) by simp
    then have "es = [0]" using elite_single[of es] wf by simp
    then show ?thesis using Some assms(2,3) one
      by (simp add: mark_def members_used_def run_members_def active_models_def)
  qed
qed

lemma run_members_bound:
  assumes "well_formed s"
  shows "\<forall>m \<in> set (run_members s oe). m < num_members s" "run_members s oe \<noteq> []"
  using assms
  by (auto simp: run_members_def active_models_def well_formed_def split: option.splits)

lemma default_forward_zip:
  assumes wf: "well_formed s"
      and len: "length xs = length (run_members s oe)"
      and batch: "\<forall>sl \<in> set xs. is_batch (in_size s) sl"
  shows "default_forward s (T3 xs) oe =
           (Inr (T3 (map2 (\<lambda>m. map (net_row s (passes s) m)) (run_members s oe) xs)),
            maybe_toggle_layers_use_only_elite
              ((maybe_toggle_layers_use_only_elite s oe)
                 \<lparr>passes := Suc (passes s),
                  hidden_layers := map (sampled (passes s)) (map (mark s oe) (hidden_layers s)),
                  output_layer := sampled (passes s) (mark s oe (output_layer s))\<rparr>) oe)"
proof -
  let ?s1 = "maybe_toggle_layers_use_only_elite s oe"
  let ?ms = "run_members s oe"
  let ?d = "passes s"
  let ?hs = "map (mark s oe) (hidden_layers s)"
  let ?ol = "mark s oe (output_layer s)"
  have lay: "\<forall>l \<in> set (hidden_layers s @ [output_layer s]). l_members l = num_members s \<and> \<not> use_only_elite l"
    using wf by (simp add: well_formed_def)
  have mem: "\<forall>l \<in> set (?hs @ [?ol]). members_used l = ?ms \<and> (\<forall>m \<in> set ?ms. m < l_members l)"
    using lay members_used_mark[OF wf] run_members_bound(1)[OF wf, of oe] by auto
  have w: "widths_ok (in_size s) ?hs (in_features ?ol)" "out_features ?ol = out_size s"
    using wf by (simp_all add: well_formed_def widths_ok_append)
  have hf: "hidden_forward (activation s) ?d ?hs (T3 xs) =
           (Inr (T3 (map2 (\<lambda>m. map (hidden_row (activation s) ?d m ?hs)) ?ms xs)), map (sampled ?d) ?hs) \<and>
         (\<forall>sl \<in> set (map2 (\<lambda>m. map (hidden_row (activation s) ?d m ?hs)) ?ms xs). is_batch (in_features ?ol) sl)"
    using hidden_forward_zip[of ?hs ?ms "in_size s" "in_features ?ol" xs "activation s" ?d] mem w(1) len batch
    by simp
  let ?h = "map2 (\<lambda>m. map (hidden_row (activation s) ?d m ?hs)) ?ms xs"
  have lf: "layer_forward ?ol ?d (T3 ?h) =
           (Inr (T3 (map2 (\<lambda>m. map (unit_row ?ol (draw_of ?ol ?d) m)) (members_used ?ol) ?h)), sampled ?d ?ol)"
    using layer_forward_zip[of ?ol ?h ?d] mem hf len by simp
  have out: "map2 (\<lambda>m. map (unit_row ?ol (draw_of ?ol ?d) m)) (members_used ?ol) ?h =
             map2 (\<lambda>m. map (net_row s ?d m)) ?ms xs"
    using mem by (auto simp: map2_map2 net_row_def comp_def)
  show ?thesis
    unfolding default_forward_def Let_def
    using hf lf out by (simp add: toggle_layers del: hidden_row_mark)
qed


lemma zip_replicate_same: "zip ms (replicate (length ms) r) = map (\<lambda>m. (m, r)) ms"
  by (induction ms) simp_all

lemma map2_replicate: "map2 f ms (replicate (length ms) r) = map (\<lambda>m. f m r) ms"
  by (simp add: zip_replicate_same comp_def)

lemma layer_forward_T2: "layer_forward l d (T2 rows) = layer_forward l d (T3 [rows])"
  by (simp add: layer_forward_def slices_of_def Let_def)

lemma layer_forward_bcast:
  assumes "members_used l \<noteq> []"
  shows "layer_forward l d (T3 [rows]) = layer_forward l d (T3 (replicate (length (members_used l)) rows))"
proof -
  let ?ms = "members_used l"
  have n: "0 < length ?ms" using assms by simp
  have s: "set (replicate (length ?ms) rows) = {rows}" using n by simp
  have z: "bzip ?ms [rows] = Inr (map (\<lambda>m. (m, rows)) ?ms)"
  proof (cases "length ?ms = 1")
    case True
    then obtain m where "?ms = [m]" by (cases ?ms) auto
    then show ?thesis by (simp add: bzip_def)
  next
    case False
    then show ?thesis by (simp add: bzip_def)
  qed
  have z2: "bzip ?ms (replicate (length ?ms) rows) = Inr (map (\<lambda>m. (m, rows)) ?ms)"
    by (simp add: bzip_def zip_replicate_same)
  show ?thesis
    unfolding layer_forward_def Let_def slices_of_def using s z z2 by simp
qed

lemma hidden_forward_first:
  "layer_forward l d x = layer_forward l d x' \<Longrightarrow>
   hidden_forward act d (l # ls) x = hidden_forward act d (l # ls) x'"
  by simp

lemma default_forward_cong:
  assumes "\<And>l. l \<in> set (map (mark s oe) (hidden_layers s) @ [mark s oe (output_layer s)]) \<Longrightarrow>
             layer_forward l (passes s) x = layer_forward l (passes s) x'"
  shows "default_forward s x oe = default_forward s x' oe"
proof (cases "hidden_layers s")
  case Nil
  have "layer_forward (mark s oe (output_layer s)) (passes s) x =
        layer_forward (mark s oe (output_layer s)) (passes s) x'"
    using assms by simp
  then show ?thesis
    unfolding default_forward_def Let_def by (simp add: toggle_layers Nil)
next
  case (Cons l0 ls0)
  then obtain l ls where c: "map (mark s oe) (hidden_layers s) = l # ls" by auto
  then have "l \<in> set (map (mark s oe) (hidden_layers s) @ [mark s oe (output_layer s)])" by simp
  then have "layer_forward l (passes s) x = layer_forward l (passes s) x'" using assms by blast
  then have "hidden_forward (activation s) (passes s) (l # ls) x =
             hidden_forward (activation s) (passes s) (l # ls) x'"
    by (rule hidden_forward_first)
  then show ?thesis
    unfolding default_forward_def Let_def by (simp add: toggle_layers c)
qed

lemma marked_members:
  assumes "well_formed s"
      and "l \<in> set (map (mark s oe) (hidden_layers s) @ [mark s oe (output_layer s)])"
  shows "members_used l = run_members s oe"
proof -
  have lay: "\<forall>l \<in> set (hidden_layers s @ [output_layer s]). l_members l = num_members s \<and> \<not> use_only_elite l"
    using assms(1) by (simp add: well_formed_def)
  then show ?thesis using assms(2) members_used_mark[OF assms(1)] by auto
qed

lemma default_forward_spread:
  assumes wf: "well_formed s"
  shows "default_forward s (T2 rows) oe =
           default_forward s (T3 (replicate (length (run_members s oe)) rows)) oe"
    and "default_forward s (T3 [rows]) oe =
           default_forward s (T3 (replicate (length (run_members s oe)) rows)) oe"
proof -
  have ne: "run_members s oe \<noteq> []" using run_members_bound(2)[OF wf] .
  have b: "\<And>l. l \<in> set (map (mark s oe) (hidden_layers s) @ [mark s oe (output_layer s)]) \<Longrightarrow>
             layer_forward l (passes s) (T3 [rows]) =
             layer_forward l (passes s) (T3 (replicate (length (run_members s oe)) rows))"
    using layer_forward_bcast marked_members[OF wf] ne by metis
  show "default_forward s (T3 [rows]) oe =
           default_forward s (T3 (replicate (length (run_members s oe)) rows)) oe"
    using b by (rule default_forward_cong)
  have "default_forward s (T2 rows) oe = default_forward s (T3 [rows]) oe"
    by (rule default_forward_cong) (rule layer_forward_T2)
  then show "default_forward s (T2 rows) oe =
           default_forward s (T3 (replicate (length (run_members s oe)) rows)) oe"
    using \<open>default_forward s (T3 [rows]) oe =
           default_forward s (T3 (replicate (length (run_members s oe)) rows)) oe\<close> by simp
qed

lemma toggle_False [simp]: "maybe_toggle_layers_use_only_elite s False = s"
  by (simp add: maybe_toggle_layers_use_only_elite_def split: option.splits)

lemma mark_False [simp]: "mark s False l = l"
  by (simp add: mark_def split: option.splits)

lemma mark_False_fun [simp]: "mark s False = (\<lambda>l. l)"
  by (rule ext) simp

lemma run_members_False [simp]: "run_members s False = [0..<num_members s]"
  by (simp add: run_members_def)

lemma run_members_True [simp]: "run_members s True = active_models s"
  by (simp add: run_members_def)

text \<open>The pass on one batch every member scores.\<close>

lemma default_forward_batch:
  assumes wf: "well_formed s" and b: "is_batch (in_size s) rows" and x: "x = T2 rows \<or> x = T3 [rows]"
  shows "fst (default_forward s x oe) =
           Inr (T3 (map (\<lambda>m. map (net_row s (passes s) m) rows) (run_members s oe)))"
    and "snd (default_forward s x False) = after_pass s"
proof -
  let ?xs = "\<lambda>oe. replicate (length (run_members s oe)) rows"
  have e: "\<And>oe. default_forward s x oe = default_forward s (T3 (?xs oe)) oe"
    using default_forward_spread[OF wf] x by metis
  have z: "\<And>oe. default_forward s (T3 (?xs oe)) oe =
           (Inr (T3 (map2 (\<lambda>m. map (net_row s (passes s) m)) (run_members s oe) (?xs oe))),
            maybe_toggle_layers_use_only_elite
              ((maybe_toggle_layers_use_only_elite s oe)
                 \<lparr>passes := Suc (passes s),
                  hidden_layers := map (sampled (passes s)) (map (mark s oe) (hidden_layers s)),
                  output_layer := sampled (passes s) (mark s oe (output_layer s))\<rparr>) oe)"
    using default_forward_zip[OF wf] b by simp
  show "fst (default_forward s x oe) =
           Inr (T3 (map (\<lambda>m. map (net_row s (passes s) m) rows) (run_members s oe)))"
    using e[of oe] z[of oe] by (simp add: map2_replicate)
  show "snd (default_forward s x False) = after_pass s"
    using e[of False] z[of False] by (simp add: after_pass_def)
qed

text \<open>The pass on one slice per member, propagation disabled.\<close>

lemma default_forward_slices:
  assumes wf: "well_formed s" and len: "length xs = num_members s"
      and b: "\<forall>sl \<in> set xs. is_batch (in_size s) sl"
  shows "default_forward s (T3 xs) False =
           (Inr (T3 (map2 (\<lambda>m. map (net_row s (passes s) m)) [0..<num_members s] xs)), after_pass s)"
  using default_forward_zip[OF wf, of xs False] len b
  by (simp add: after_pass_def)


subsection \<open>Propagation by expectation\<close>

lemma length_net_row [simp]: "length (net_row s d m x) = out_features (output_layer s)"
  by (simp add: net_row_def)

lemma map_nth_fun: "map (\<lambda>b. g (xs ! b)) [0..<length xs] = map g xs"
proof -
  have "map (\<lambda>b. g (xs ! b)) [0..<length xs] = map g (map (nth xs) [0..<length xs])"
    by (simp add: comp_def)
  then show ?thesis by (simp add: map_nth)
qed

lemma mean_dim0_members:
  assumes "ms \<noteq> []" and "\<And>m r. length (f m r) = w"
  shows "mean_dim0 (T3 (map (\<lambda>m. map (f m) rows) ms)) =
           Inr (T2 (map (\<lambda>r. map (\<lambda>j. (\<Sum>m \<leftarrow> ms. f m r ! j) / real (length ms)) [0..<w]) rows))"
proof -
  obtain a as where ms: "ms = a # as" using assms(1) by (cases ms) auto
  have row: "\<And>b. b < length rows \<Longrightarrow>
       map (\<lambda>j. (\<Sum>sl \<leftarrow> map (\<lambda>m. map (f m) rows) ms. sl ! b ! j) / real (length ms))
           [0..<length (map (f a) rows ! b)] =
       map (\<lambda>j. (\<Sum>m \<leftarrow> ms. f m (rows ! b) ! j) / real (length ms)) [0..<w]"
    by (simp add: assms(2) comp_def)
  have "mean_dim0 (T3 (map (\<lambda>m. map (f m) rows) ms)) =
        Inr (T2 (map (\<lambda>b. map (\<lambda>j. (\<Sum>sl \<leftarrow> map (\<lambda>m. map (f m) rows) ms. sl ! b ! j) / real (length ms))
                              [0..<length (map (f a) rows ! b)])
                     [0..<length rows]))"
    by (simp add: mean_dim0_def ms)
  also have "\<dots> = Inr (T2 (map (\<lambda>b. map (\<lambda>j. (\<Sum>m \<leftarrow> ms. f m (rows ! b) ! j) / real (length ms)) [0..<w])
                     [0..<length rows]))"
    using row by simp
  also have "\<dots> = Inr (T2 (map (\<lambda>r. map (\<lambda>j. (\<Sum>m \<leftarrow> ms. f m r ! j) / real (length ms)) [0..<w]) rows))"
    using map_nth_fun[of "\<lambda>r. map (\<lambda>j. (\<Sum>m \<leftarrow> ms. f m r ! j) / real (length ms)) [0..<w]" rows]
    by simp
  finally show ?thesis .
qed

lemma wf_model_len:
  assumes "well_formed s"
  shows "model_len s = length (active_models s)" "0 < model_len s"
        "out_features (output_layer s) = out_size s"
  using assms
  by (auto simp: model_len_def active_models_def well_formed_def widths_ok_append split: option.splits)

text \<open>
  C7. With \<open>propagation_method = expectation\<close> and a rank-2 input whose batch size is a
  multiple of the active model count, \<open>forward\<close> gives the same full batch to every active
  model (the elite ones when an elite set is chosen, all members otherwise), and returns
  the mean of their predictions over the model axis: one row of \<open>out_size\<close> entries
  per input row. The witness is the scenario of the specification: three members, rows
  of 5 entries, 4 outputs, hidden width 10, a batch of 3 rows.
\<close>

theorem expectation_averages_all_models:
  assumes "well_formed s"
      and "propagation_method s = Some ''expectation''"
      and "is_batch (in_size s) rows"
      and "length rows mod model_len s = 0"
  shows "\<exists>out. fst (forward rp s (T2 rows) idx True) = Inr (T2 out) \<and>
           out = map (\<lambda>r. map (\<lambda>j. (\<Sum>m \<leftarrow> active_models s. net_row s (passes s) m r ! j)
                                     / real (length (active_models s)))
                            [0..<out_size s]) rows \<and>
           length out = length rows \<and> is_batch (out_size s) out"
proof -
  have ne: "active_models s \<noteq> []" using run_members_bound(2)[OF assms(1), of True] by simp
  have df: "fst (default_forward s (T3 [rows]) True) =
           Inr (T3 (map (\<lambda>m. map (net_row s (passes s) m) rows) (active_models s)))"
    using default_forward_batch(1)[OF assms(1,3), of "T3 [rows]" True] by simp
  have md: "mean_dim0 (T3 (map (\<lambda>m. map (net_row s (passes s) m) rows) (active_models s))) =
           Inr (T2 (map (\<lambda>r. map (\<lambda>j. (\<Sum>m \<leftarrow> active_models s. net_row s (passes s) m r ! j)
                                     / real (length (active_models s)))
                            [0..<out_size s]) rows))"
    using mean_dim0_members[OF ne, of "net_row s (passes s)" "out_size s" rows] wf_model_len(3)[OF assms(1)]
    by simp
  have "fst (forward rp s (T2 rows) idx True) =
          Inr (T2 (map (\<lambda>r. map (\<lambda>j. (\<Sum>m \<leftarrow> active_models s. net_row s (passes s) m r ! j)
                                     / real (length (active_models s)))
                            [0..<out_size s]) rows))"
    using assms(2,4) wf_model_len(2)[OF assms(1)] df md
    by (auto simp: forward_def forward_ensemble_def split: prod.splits sum.splits)
  then show ?thesis by (simp add: is_batch_def)
qed

lemma ex_scenario_wf: "well_formed ex_scenario"
  by (simp add: ex_scenario_def well_formed_def BNN_init_def create_linear_layer_def eval_nat_numeral)

theorem expectation_averages_all_models_witness:
  "well_formed ex_scenario \<and> is_batch 5 ex_batch \<and> length ex_batch = 3 \<and>
   (\<exists>out. fst (forward ex_randperm ex_scenario (T2 ex_batch) None True) = Inr (T2 out) \<and>
          length out = 3 \<and> is_batch 4 out)"
proof -
  have a: "propagation_method ex_scenario = Some ''expectation''" "in_size ex_scenario = 5"
          "out_size ex_scenario = 4" "model_len ex_scenario = 3"
    by (simp_all add: ex_scenario_def BNN_init_def model_len_def)
  have b: "is_batch 5 ex_batch" "length ex_batch = 3" by (simp_all add: is_batch_def ex_batch_def)
  show ?thesis
    using expectation_averages_all_models [of ex_scenario ex_batch ex_randperm None] ex_scenario_wf a b
    by auto
qed


subsection \<open>The sum of squared errors of one pass\<close>

lemma sequence_map_Inr:
  "(\<And>p. p \<in> set ps \<Longrightarrow> h p = Inr (k p)) \<Longrightarrow> sequence (map h ps) = Inr (map k ps)"
  by (induction ps) simp_all

lemma bmap_zip:
  assumes "length xs = length ys"
      and "\<And>i. i < length xs \<Longrightarrow> f (xs ! i) (ys ! i) = Inr (g (xs ! i) (ys ! i))"
  shows "bmap f xs ys = Inr (map2 g xs ys)"
proof -
  have "\<And>p. p \<in> set (zip xs ys) \<Longrightarrow> (case p of (x, y) \<Rightarrow> f x y) = Inr (case p of (x, y) \<Rightarrow> g x y)"
    using assms by (auto simp: set_zip)
  then have "sequence (map (\<lambda>(x, y). f x y) (zip xs ys)) = Inr (map (\<lambda>(x, y). g x y) (zip xs ys))"
    by (rule sequence_map_Inr)
  then show ?thesis using assms(1) by (simp add: bmap_def bzip_def)
qed

lemma bmap_squared_errors:
  assumes "length p = length t"
      and "\<And>i. i < length p \<Longrightarrow> length (p ! i) = length (t ! i)"
      and "\<And>i j. i < length p \<Longrightarrow> j < length (p ! i) \<Longrightarrow> length (p ! i ! j) = length (t ! i ! j)"
  shows "bmap (bmap (bmap (\<lambda>a b. Inr ((a - b)\<^sup>2)))) p t = Inr (squared_errors p t)"
  unfolding squared_errors_def
proof (rule bmap_zip[OF assms(1)])
  fix i assume i: "i < length p"
  show "bmap (bmap (\<lambda>a b. Inr ((a - b)\<^sup>2))) (p ! i) (t ! i) =
        Inr (map2 (map2 (\<lambda>a b. (a - b)\<^sup>2)) (p ! i) (t ! i))"
  proof (rule bmap_zip[OF assms(2)[OF i]])
    fix j assume j: "j < length (p ! i)"
    show "bmap (\<lambda>a b. Inr ((a - b)\<^sup>2)) (p ! i ! j) (t ! i ! j) =
          Inr (map2 (\<lambda>a b. (a - b)\<^sup>2) (p ! i ! j) (t ! i ! j))"
      by (rule bmap_zip[OF assms(3)[OF i j]]) simp
  qed
qed

lemma bzip_single: "xs \<noteq> [] \<Longrightarrow> bzip xs [y] = bzip xs (replicate (length xs) y)"
  by (cases xs) (auto simp: bzip_def zip_replicate_same)

lemma F_mse_loss_T2: "p \<noteq> [] \<Longrightarrow> F_mse_loss (T3 p) (T2 t) = F_mse_loss (T3 p) (T3 (replicate (length p) t))"
  by (simp add: F_mse_loss_def bmap_def to3_def bzip_single split: sum.splits)

lemma F_mse_loss_T3:
  assumes "length p = length t"
      and "\<And>i. i < length p \<Longrightarrow> length (p ! i) = length (t ! i)"
      and "\<And>i j. i < length p \<Longrightarrow> j < length (p ! i) \<Longrightarrow> length (p ! i ! j) = length (t ! i ! j)"
  shows "F_mse_loss (T3 p) (T3 t) = Inr (T3 (squared_errors p t))"
  using bmap_squared_errors[OF assms] by (simp add: F_mse_loss_def to3_def from3_def split: sum.splits)

lemma sum_of_squared_errors:
  "sum_list (map (\<lambda>sl. sum_list (map sum_list sl)) (squared_errors p t)) = sum_squared_errors p t"
  by (simp add: squared_errors_def sum_squared_errors_def comp_def split_def)

lemma reduce_squared_errors:
  "sum12 (T3 (squared_errors p t)) = Inr (T1 (map (\<lambda>sl. sum_list (map sum_list sl)) (squared_errors p t)))"
  "sum_all (T1 (map (\<lambda>sl. sum_list (map sum_list sl)) (squared_errors p t))) = T0 (sum_squared_errors p t)"
  by (simp_all add: sum12_def sum_all_def sum_of_squared_errors)

lemma is_batch_nth: "is_batch w rows \<Longrightarrow> j < length rows \<Longrightarrow> length (rows ! j) = w"
  by (simp add: is_batch_def)

lemma mse_loss_value_T2:
  assumes wf: "well_formed s"
      and b: "is_batch (in_size s) rows" "is_batch (out_size s) trows" "length trows = length rows"
  shows "mse_loss rp s (T2 rows) (Some (T2 trows)) =
           (Inr (T0 (sse s (passes s) (T2 rows) (T2 trows))), after_pass s)"
proof -
  let ?E = "num_members s"
  let ?P = "map (\<lambda>m. map (net_row s (passes s) m) rows) [0..<?E]"
  have E: "0 < ?E" using wf by (simp add: well_formed_def)
  have df: "default_forward s (T2 rows) False = (Inr (T3 ?P), after_pass s)"
    using default_forward_batch[OF wf b(1), of "T2 rows"]
    by (metis prod.collapse run_members_False)
  have P: "predictions s (passes s) (T2 rows) = ?P"
    using map2_replicate[of "\<lambda>m. map (net_row s (passes s) m)" "[0..<?E]" rows]
    by (simp add: predictions_def per_member_def)
  have ne: "?P \<noteq> []" using E by simp
  have o: "out_features (output_layer s) = out_size s" using wf_model_len(3)[OF wf] .
  have f: "F_mse_loss (T3 ?P) (T3 (replicate (length ?P) trows)) =
             Inr (T3 (squared_errors ?P (replicate (length ?P) trows)))"
  proof (rule F_mse_loss_T3)
    show "length ?P = length (replicate (length ?P) trows)" by simp
  next
    fix i assume "i < length ?P"
    then show "length (?P ! i) = length (replicate (length ?P) trows ! i)" using b(3) by simp
  next
    fix i j assume "i < length ?P" "j < length (?P ! i)"
    then show "length (?P ! i ! j) = length (replicate (length ?P) trows ! i ! j)"
      using b(2,3) o by (simp add: is_batch_nth)
  qed
  have t: "per_member s (T2 trows) = replicate (length ?P) trows" by (simp add: per_member_def)
  show ?thesis
    using df F_mse_loss_T2[OF ne, of trows] f P t
    by (simp add: mse_loss_def forward_def sse_def reduce_squared_errors)
qed

lemma mse_loss_value_T3:
  assumes wf: "well_formed s"
      and len: "length xs = num_members s" "length ts = num_members s"
      and b: "\<forall>(sl, tl) \<in> set (zip xs ts).
                is_batch (in_size s) sl \<and> is_batch (out_size s) tl \<and> length tl = length sl"
  shows "mse_loss rp s (T3 xs) (Some (T3 ts)) =
           (Inr (T0 (sse s (passes s) (T3 xs) (T3 ts))), after_pass s)"
proof -
  let ?E = "num_members s"
  let ?P = "map2 (\<lambda>m. map (net_row s (passes s) m)) [0..<?E] xs"
  have bi: "\<And>i. i < ?E \<Longrightarrow>
       is_batch (in_size s) (xs ! i) \<and> is_batch (out_size s) (ts ! i) \<and> length (ts ! i) = length (xs ! i)"
    using b len by (auto simp: set_zip)
  have bx: "\<forall>sl \<in> set xs. is_batch (in_size s) sl"
    using bi len by (metis in_set_conv_nth)
  have df: "default_forward s (T3 xs) False = (Inr (T3 ?P), after_pass s)"
    using default_forward_slices[OF wf len(1) bx] .
  have P: "predictions s (passes s) (T3 xs) = ?P"
    by (simp add: predictions_def per_member_def)
  have o: "out_features (output_layer s) = out_size s" using wf_model_len(3)[OF wf] .
  have f: "F_mse_loss (T3 ?P) (T3 ts) = Inr (T3 (squared_errors ?P ts))"
  proof (rule F_mse_loss_T3)
    show "length ?P = length ts" using len by simp
  next
    fix i assume "i < length ?P"
    then show "length (?P ! i) = length (ts ! i)" using len bi[of i] by simp
  next
    fix i j assume "i < length ?P" "j < length (?P ! i)"
    then show "length (?P ! i ! j) = length (ts ! i ! j)"
      using len bi[of i] o is_batch_nth[of "out_size s" "ts ! i" j] by simp
  qed
  have t: "per_member s (T3 ts) = ts" by (simp add: per_member_def)
  show ?thesis
    using df f P t
    by (simp add: mse_loss_def forward_def sse_def reduce_squared_errors)
qed

lemma mse_loss_value:
  assumes "well_formed s" and "valid_pair s x t"
  shows "mse_loss rp s x (Some t) = (Inr (T0 (sse s (passes s) x t)), after_pass s)"
proof (cases x)
  case (T2 rows)
  then obtain trows where "t = T2 trows" using assms(2) by (cases t) (simp_all add: valid_pair_def)
  then show ?thesis using assms T2 mse_loss_value_T2[OF assms(1), of rows trows rp]
    by (simp add: valid_pair_def)
next
  case (T3 xs)
  then obtain ts where "t = T3 ts" using assms(2) by (cases t) (simp_all add: valid_pair_def)
  then show ?thesis using assms T3 mse_loss_value_T3[OF assms(1), of xs ts rp]
    by (simp add: valid_pair_def)
qed (use assms(2) in \<open>simp_all add: valid_pair_def\<close>)

subsection \<open>The frozen loss\<close>

lemma unit_row_frozen [simp]: "unit_row (l\<lparr>l_freeze := b\<rparr>) = unit_row l"
  by (intro ext) (simp add: unit_row_def)

lemma hidden_row_frozen:
  "hidden_row act d m (map (\<lambda>l. l\<lparr>l_freeze := True\<rparr>) ls) x = hidden_mean_row act m ls x"
  by (induction ls arbitrary: x) (simp_all add: draw_of_def)

lemma net_row_frozen: "net_row (freeze_model s) d m = mean_row s m"
  by (rule ext) (simp add: net_row_def mean_row_def freeze_model_def hidden_row_frozen draw_of_def)

lemma widths_ok_frozen [simp]:
  "widths_ok w (map (\<lambda>l. l\<lparr>l_freeze := True\<rparr>) ls) w' = widths_ok w ls w'"
  by (induction ls arbitrary: w) simp_all

lemma freeze_model_frame [simp]:
  "num_members (freeze_model s) = num_members s"
  "in_size (freeze_model s) = in_size s"
  "out_size (freeze_model s) = out_size s"
  "passes (freeze_model s) = passes s"
  "elite_models (freeze_model s) = elite_models s"
  by (simp_all add: freeze_model_def)

lemma well_formed_freeze_model: "well_formed s \<Longrightarrow> well_formed (freeze_model s)"
proof -
  assume wf: "well_formed s"
  have w: "widths_ok (in_size s) (hidden_layers (freeze_model s) @ [output_layer (freeze_model s)]) (out_size s)"
    using wf by (simp add: well_formed_def freeze_model_def widths_ok_append)
  have l: "\<forall>l \<in> set (hidden_layers (freeze_model s) @ [output_layer (freeze_model s)]).
        l_members l = num_members s \<and> \<not> use_only_elite l"
    using wf by (auto simp: well_formed_def freeze_model_def)
  show ?thesis using wf w l by (auto simp: well_formed_def split: option.splits)
qed

lemma valid_pair_freeze_model [simp]: "valid_pair (freeze_model s) x t = valid_pair s x t"
  by (simp add: valid_pair_def split: tensor.splits)

lemma per_member_freeze_model [simp]: "per_member (freeze_model s) x = per_member s x"
  by (simp add: per_member_def split: tensor.splits)

lemma predictions_frozen: "predictions (freeze_model s) d x = mean_predictions s x"
  by (simp add: predictions_def mean_predictions_def net_row_frozen)

lemma sampled_frozen: "l_freeze l \<Longrightarrow> sampled d l = l"
  by (simp add: sampled_def)

lemma after_pass_frozen:
  "after_pass (freeze_model s) = (freeze_model s)\<lparr>passes := Suc (passes s)\<rparr>"
  by (simp add: after_pass_def freeze_model_def sampled_frozen comp_def)

text \<open>
  C4. When the \<open>freeze\<close> flag is set, \<open>loss\<close> returns the sum of the squared errors
  between the forward pass with propagation disabled and the target, summed over the
  output dimension and the batch for every member and then over the members, with an
  empty metadata map. No weight is sampled: every member predicts from the posterior
  means, one forward pass is made, and the state the call leaves is the frozen model
  with that pass counted.
\<close>

theorem frozen_loss_is_sum_of_squared_errors:
  assumes "freeze s" and "well_formed s" and "valid_pair s x t"
  shows "loss rp s x (Some t) =
           (Inr (T0 (sum_squared_errors (mean_predictions s x) (per_member s t)), []),
            (freeze_model s)\<lparr>passes := Suc (passes s)\<rparr>)"
proof -
  have "mse_loss rp (freeze_model s) x (Some t) =
          (Inr (T0 (sse (freeze_model s) (passes s) x t)), after_pass (freeze_model s))"
    using mse_loss_value[OF well_formed_freeze_model[OF assms(2)], of x t rp] assms(3) by simp
  then show ?thesis
    using assms(1) by (simp add: loss_def sse_def predictions_frozen after_pass_frozen)
qed

lemma ex_frozen_wf: "well_formed ex_frozen"
  by (simp add: ex_frozen_def well_formed_def BNN_init_def create_linear_layer_def freeze_model_def)

theorem frozen_loss_is_sum_of_squared_errors_witness:
  "freeze ex_frozen \<and> well_formed ex_frozen \<and> valid_pair ex_frozen (T2 [[1]]) (T2 [[1]]) \<and>
   fst (loss ex_randperm ex_frozen (T2 [[1]]) (Some (T2 [[1]]))) = Inr (T0 4, []) \<and>
   passes (snd (loss ex_randperm ex_frozen (T2 [[1]]) (Some (T2 [[1]])))) = 1"
proof -
  have a: "freeze ex_frozen" "valid_pair ex_frozen (T2 [[1]]) (T2 [[1]])" "passes ex_frozen = 0"
    by (simp_all add: ex_frozen_def BNN_init_def freeze_model_def valid_pair_def is_batch_def)
  have v: "sum_squared_errors (mean_predictions ex_frozen (T2 [[1]])) (per_member ex_frozen (T2 [[1]])) = 4"
    by (simp add: sum_squared_errors_def mean_predictions_def per_member_def mean_row_def
        ex_frozen_def BNN_init_def create_linear_layer_def freeze_model_def unit_row_def
        ex_params_def relu_def eval_nat_numeral)
  show ?thesis
    using frozen_loss_is_sum_of_squared_errors [OF a(1) ex_frozen_wf a(2), of ex_randperm] a v
      ex_frozen_wf
    by simp
qed

subsection \<open>The variational loss\<close>

lemma after_pass_frame [simp]:
  "num_members (after_pass s) = num_members s"
  "in_size (after_pass s) = in_size s"
  "out_size (after_pass s) = out_size s"
  "passes (after_pass s) = Suc (passes s)"
  "elite_models (after_pass s) = elite_models s"
  "activation (after_pass s) = activation s"
  "freeze (after_pass s) = freeze s"
  by (simp_all add: after_pass_def)

lemma unit_row_sampled [simp]: "unit_row (sampled d l) = unit_row l"
  by (intro ext) (simp add: unit_row_def)

lemma draw_of_sampled [simp]: "draw_of (sampled d l) = draw_of l"
  by (intro ext) (simp add: draw_of_def)

lemma hidden_row_sampled [simp]:
  "hidden_row act d m (map (sampled d') ls) x = hidden_row act d m ls x"
  by (induction ls arbitrary: x) simp_all

lemma widths_ok_sampled [simp]: "widths_ok w (map (sampled d) ls) w' = widths_ok w ls w'"
  by (induction ls arbitrary: w) simp_all

lemma net_row_after_pass [simp]: "net_row (after_pass s) d m = net_row s d m"
  by (rule ext) (simp add: net_row_def after_pass_def)

lemma well_formed_after_pass: "well_formed s \<Longrightarrow> well_formed (after_pass s)"
proof -
  assume wf: "well_formed s"
  have w: "widths_ok (in_size s) (hidden_layers (after_pass s) @ [output_layer (after_pass s)]) (out_size s)"
    using wf by (simp add: well_formed_def after_pass_def widths_ok_append)
  have l: "\<forall>l \<in> set (hidden_layers (after_pass s) @ [output_layer (after_pass s)]).
        l_members l = num_members s \<and> \<not> use_only_elite l"
    using wf by (auto simp: well_formed_def after_pass_def)
  show ?thesis using wf w l by (auto simp: well_formed_def split: option.splits)
qed

lemma valid_pair_after_pass [simp]: "valid_pair (after_pass s) x t = valid_pair s x t"
  by (simp add: valid_pair_def split: tensor.splits)

lemma per_member_after_pass [simp]: "per_member (after_pass s) x = per_member s x"
  by (simp add: per_member_def split: tensor.splits)

lemma sse_after_pass [simp]: "sse (after_pass s) d x t = sse s d x t"
  by (simp add: sse_def predictions_def)

lemma kl_cur_sampled_twice [simp]: "kl_cur (sampled d (sampled d' l)) = kl_cur (sampled d l)"
  by (simp add: sampled_def)

lemma kl_at_after_pass [simp]: "kl_at (after_pass s) d = kl_at s d"
  by (simp add: kl_at_def after_pass_def comp_def)

lemma kl_sum_after_pass: "kl_sum (after_pass s) = kl_at s (passes s)"
  by (simp add: kl_sum_def kl_at_def after_pass_def comp_def)

lemma passes_funpow [simp]: "passes ((after_pass ^^ n) s) = passes s + n"
  by (induction n) simp_all

text \<open>The loop of \<open>sample_elbo\<close>: iteration \<open>i\<close> makes the pass with draw \<open>passes s + i\<close>.\<close>

lemma elbo_loop_value:
  assumes "well_formed s" and "valid_pair s x t"
  shows "elbo_loop rp n s x (Some t) w acc =
           (Inr (acc + (\<Sum>i<n. sse s (passes s + i) x t + w * kl_at s (passes s + i))),
            (after_pass ^^ n) s)"
  using assms
proof (induction n arbitrary: s acc)
  case 0
  then show ?case by simp
next
  case (Suc n)
  have m: "mse_loss rp s x (Some t) = (Inr (T0 (sse s (passes s) x t)), after_pass s)"
    using mse_loss_value[OF Suc.prems] .
  have ih: "elbo_loop rp n (after_pass s) x (Some t) w (acc + sse s (passes s) x t + w * kl_at s (passes s)) =
           (Inr (acc + sse s (passes s) x t + w * kl_at s (passes s) +
                  (\<Sum>i<n. sse s (Suc (passes s) + i) x t + w * kl_at s (Suc (passes s) + i))),
            (after_pass ^^ n) (after_pass s))"
    using Suc.IH[OF well_formed_after_pass[OF Suc.prems(1)], of "acc + sse s (passes s) x t + w * kl_at s (passes s)"]
      Suc.prems(2) by simp
  have sum: "(\<Sum>i<Suc n. sse s (passes s + i) x t + w * kl_at s (passes s + i)) =
             sse s (passes s) x t + w * kl_at s (passes s) +
             (\<Sum>i<n. sse s (Suc (passes s) + i) x t + w * kl_at s (Suc (passes s) + i))"
    by (simp add: sum.lessThan_Suc_shift del: sum.lessThan_Suc)
  have st: "(after_pass ^^ n) (after_pass s) = (after_pass ^^ Suc n) s"
    by (simp add: funpow_swap1)
  show ?case
    using m ih by (simp add: complexity_term_kl_sum kl_sum_after_pass sum st add.assoc del: funpow.simps sum.lessThan_Suc)
qed

text \<open>
  C5. When the \<open>freeze\<close> flag is not set, \<open>loss\<close> returns the arithmetic mean over the
  100 Monte-Carlo iterations (the default \<open>sample_nbr\<close>) of the sum of squared errors of
  that iteration, computed with a forward pass of its own (iteration \<open>i\<close> uses draw
  \<open>passes s + i\<close>), plus the complexity term of that iteration with weight 1. For any
  positive \<open>sample_nbr\<close> and any weight \<open>sample_elbo\<close> returns the same mean over
  \<open>sample_nbr\<close> iterations.
\<close>

theorem unfrozen_loss_is_mean_of_samples:
  assumes "well_formed s" and "valid_pair s x t"
  shows "(0 < n \<longrightarrow>
            sample_elbo rp s x (Some t) n w =
              (Inr (T0 ((\<Sum>i<nat n. sse s (passes s + i) x t + w * kl_at s (passes s + i))
                        / real_of_int n)),
               (after_pass ^^ nat n) s)) \<and>
         (\<not> freeze s \<longrightarrow>
            loss rp s x (Some t) =
              (Inr (T0 ((\<Sum>i<100. sse s (passes s + i) x t + 1 * kl_at s (passes s + i)) / 100), []),
               (after_pass ^^ 100) s))"
  using elbo_loop_value[OF assms, of rp 100 1 0] elbo_loop_value[OF assms, of rp "nat n" w 0]
  by (simp add: loss_def sample_elbo_def)

lemma ex_net_wf: "well_formed (ex_net None)"
  by (simp add: ex_net_def well_formed_def BNN_init_def create_linear_layer_def)

theorem unfrozen_loss_is_mean_of_samples_witness:
  "well_formed (ex_net None) \<and> valid_pair (ex_net None) (T2 [[1]]) (T2 [[1]]) \<and>
   \<not> freeze (ex_net None) \<and>
   fst (sample_elbo ex_randperm (ex_net None) (T2 [[1]]) (Some (T2 [[1]])) 2 1) = Inr (T0 (259 / 2)) \<and>
   passes (snd (sample_elbo ex_randperm (ex_net None) (T2 [[1]]) (Some (T2 [[1]])) 2 1)) = 2 \<and>
   passes (snd (loss ex_randperm (ex_net None) (T2 [[1]]) (Some (T2 [[1]])))) = 100"
proof -
  have a: "valid_pair (ex_net None) (T2 [[1]]) (T2 [[1]])" "\<not> freeze (ex_net None)"
          "passes (ex_net None) = 0"
    by (simp_all add: ex_net_def BNN_init_def valid_pair_def is_batch_def)
  have s0: "sse (ex_net None) 0 (T2 [[1]]) (T2 [[1]]) = 45"
    by (simp add: sse_def sum_squared_errors_def predictions_def per_member_def net_row_def
        ex_defs unit_row_def draw_of_def eval_nat_numeral)
  have s1: "sse (ex_net None) (Suc 0) (T2 [[1]]) (T2 [[1]]) = 208"
    by (simp add: sse_def sum_squared_errors_def predictions_def per_member_def net_row_def
        ex_defs unit_row_def draw_of_def eval_nat_numeral)
  have k: "kl_at (ex_net None) 0 = 2" "kl_at (ex_net None) (Suc 0) = 4"
    by (simp_all add: kl_at_def sampled_def ex_defs)
  show ?thesis
    using unfrozen_loss_is_mean_of_samples [OF ex_net_wf a(1), of 2 ex_randperm 1]
      ex_net_wf a s0 s1 k
    by (simp add: eval_nat_numeral)
qed

subsection \<open>The evaluation score\<close>

lemma squared_errors_members:
  "squared_errors (map (\<lambda>m. map (f m) rows) ms) (replicate (length ms) trows) =
     map (\<lambda>m. map2 (\<lambda>r tr. map2 (\<lambda>a b. (a - b)\<^sup>2) (f m r) tr) rows trows) ms"
  by (simp add: squared_errors_def zip_replicate_same zip_map1 comp_def split_def)

text \<open>
  C8. \<open>eval_score\<close> raises the assertion error whenever its input is not of rank 2, or
  its target is a tensor that is not of rank 2 (so for every input of rank 3), and leaves
  the state as it was. When both are of rank 2 (rows of \<open>in_size\<close> entries, as many
  target rows of \<open>out_size\<close> entries) it returns, with an empty metadata map, the squared
  error between the forward pass with propagation disabled and the target repeated for
  every member, unreduced: one entry per member, example and output dimension. (A
  missing target with a rank-2 input raises \<open>AttributeError\<close> in the assertion.)
\<close>

theorem eval_score_asserts_rank_or_scores:
  "(ndim x \<noteq> 2 \<or> (\<exists>tt. t = Some tt \<and> ndim tt \<noteq> 2) \<longrightarrow>
      eval_score rp s x t = (Inl AssertionError, s)) \<and>
   (well_formed s \<and> is_batch (in_size s) rows \<and> is_batch (out_size s) trows \<and>
    length trows = length rows \<longrightarrow>
      eval_score rp s (T2 rows) (Some (T2 trows)) =
        (Inr (T3 (map (\<lambda>m. map2 (\<lambda>r tr. map2 (\<lambda>a b. (a - b)\<^sup>2) (net_row s (passes s) m r) tr)
                                 rows trows)
                      [0..<num_members s]), []),
         after_pass s))"
proof -
  have a: "ndim x \<noteq> 2 \<or> (\<exists>tt. t = Some tt \<and> ndim tt \<noteq> 2) \<longrightarrow>
      eval_score rp s x t = (Inl AssertionError, s)"
    by (cases x; cases t) (auto simp: eval_score_def split: tensor.splits)
  have b: "eval_score rp s (T2 rows) (Some (T2 trows)) =
        (Inr (T3 (map (\<lambda>m. map2 (\<lambda>r tr. map2 (\<lambda>a b. (a - b)\<^sup>2) (net_row s (passes s) m r) tr)
                                 rows trows)
                      [0..<num_members s]), []),
         after_pass s)"
    if wf: "well_formed s" and bt: "is_batch (in_size s) rows" "is_batch (out_size s) trows"
      "length trows = length rows"
  proof -
    let ?E = "num_members s"
    let ?P = "map (\<lambda>m. map (net_row s (passes s) m) rows) [0..<?E]"
    have df: "default_forward s (T2 rows) False = (Inr (T3 ?P), after_pass s)"
      using default_forward_batch[OF wf bt(1), of "T2 rows"]
      by (metis prod.collapse run_members_False)
    have o: "out_features (output_layer s) = out_size s" using wf_model_len(3)[OF wf] .
    have f: "F_mse_loss (T3 ?P) (T3 (replicate ?E trows)) =
               Inr (T3 (squared_errors ?P (replicate ?E trows)))"
    proof (rule F_mse_loss_T3)
      show "length ?P = length (replicate ?E trows)" by simp
    next
      fix i assume "i < length ?P"
      then show "length (?P ! i) = length (replicate ?E trows ! i)" using bt(3) by simp
    next
      fix i j assume "i < length ?P" "j < length (?P ! i)"
      then show "length (?P ! i ! j) = length (replicate ?E trows ! i ! j)"
        using bt(2,3) o by (simp add: is_batch_nth)
    qed
    have e: "squared_errors ?P (replicate ?E trows) =
       map (\<lambda>m. map2 (\<lambda>r tr. map2 (\<lambda>a b. (a - b)\<^sup>2) (net_row s (passes s) m r) tr) rows trows)
           [0..<?E]"
      using squared_errors_members[of "net_row s (passes s)" rows "[0..<?E]" trows] by simp
    show ?thesis
      using df f e by (simp add: eval_score_def forward_def repeat_members_def)
  qed
  show ?thesis using a b by blast
qed

theorem eval_score_asserts_rank_or_scores_witness:
  "eval_score ex_randperm (ex_net None) (T3 [[[1]]]) (Some (T2 [[1]])) =
     (Inl AssertionError, ex_net None) \<and>
   eval_score ex_randperm (ex_net None) (T2 [[1]]) (Some (T1 [1])) =
     (Inl AssertionError, ex_net None) \<and>
   well_formed (ex_net None) \<and>
   fst (eval_score ex_randperm (ex_net None) (T2 [[1]]) (Some (T2 [[1]]))) =
     Inr (T3 [[[9]], [[36]]], [])"
proof -
  have n: "net_row (ex_net None) 0 0 [1] = [4]" "net_row (ex_net None) 0 (Suc 0) [1] = [7]"
          "passes (ex_net None) = 0" "num_members (ex_net None) = 2"
          "in_size (ex_net None) = 1" "out_size (ex_net None) = 1"
    by (simp_all add: net_row_def ex_defs unit_row_def draw_of_def)
  show ?thesis
    using eval_score_asserts_rank_or_scores [of "T3 [[[1]]]" "Some (T2 [[1]])" ex_randperm "ex_net None" "[[1]]" "[[1]]"]
          eval_score_asserts_rank_or_scores [of "T2 [[1]]" "Some (T1 [1])" ex_randperm "ex_net None" "[[1]]" "[[1]]"]
          ex_net_wf n
    by (simp add: is_batch_def eval_nat_numeral)
qed

subsection \<open>Propagation by model assignment\<close>








lemma scatter_length [simp]:
  "length (fold (\<lambda>(i, r) acc. acc[i := r]) ps dst) = length dst"
  by (induction ps arbitrary: dst) (simp_all add: split_def)







subsection \<open>The invariant holds of the ensembles the constructor builds\<close>

lemma widths_ok_created:
  "widths_ok h (map (\<lambda>k. create_linear_layer e h h (init (Suc k))) ks @ [create_linear_layer e h w p]) w"
  by (induction ks) (simp_all add: create_linear_layer_def)

text \<open>The constructor gives a well-formed ensemble, and an elite set of distinct member
  indices keeps it well-formed.\<close>

lemma BNN_init_well_formed:
  assumes "0 < e"
  shows "well_formed (BNN_init i w n e h frz method act init)"
proof -
  let ?s = "BNN_init i w n e h False method act init"
  have "well_formed ?s"
    using assms widths_ok_created[of h e init "[0..<n - 1]" w "init n"]
    by (auto simp: well_formed_def BNN_init_def create_linear_layer_def)
  moreover have "BNN_init i w n e h frz method act init = (if frz then freeze_model (?s\<lparr>freeze := True\<rparr>) else ?s)"
    by (simp add: BNN_init_def Let_def freeze_model_def)
  moreover have "well_formed (?s\<lparr>freeze := True\<rparr>)"
    using \<open>well_formed ?s\<close> by (auto simp: well_formed_def split: option.splits)
  ultimately show ?thesis using well_formed_freeze_model by presburger
qed

lemma set_elite_well_formed:
  assumes "well_formed s" and "es \<noteq> []" and "distinct es" and "\<forall>m \<in> set es. m < num_members s"
  shows "well_formed (set_elite s es)"
  using assms by (auto simp: well_formed_def set_elite_def split: option.splits)

end
